theory Spec2Isabelle
  imports Main "HOL-Library.AList"
begin

section \<open>Values, messages and listeners\<close>

text \<open>
  The dxLink WebSocket client: the version-3 engine \<^verbatim>\<open>DXLinkWebSocket\<close> (client.ts), its
  \<^verbatim>\<open>Channel\<close> class and the version-2 \<^verbatim>\<open>AuthManager\<close> (auth.ts).

  JavaScript values of type \<^verbatim>\<open>unknown\<close> (channel parameters, the extra properties of a channel
  message). Numbers are integers here: the protocol's channel ids, seconds and milliseconds.
\<close>

datatype jsval =
    JSUndefined
  | JSNull
  | JSBool bool
  | JSNumber int
  | JSString string
  | JSArray "jsval list"
  | JSObject "(string \<times> jsval) list"

text \<open>
  An object literal: its own properties in insertion order. Writing a property that exists keeps
  its position and replaces its value, as \<open>AList.update\<close> does.
\<close>

type_synonym jsobject = "(string \<times> jsval) list"

text \<open>Property read \<^verbatim>\<open>o.k\<close>: a missing property reads as \<^verbatim>\<open>undefined\<close>.\<close>

definition getProp :: "jsobject \<Rightarrow> string \<Rightarrow> jsval" where
  "getProp obj k = (case map_of obj k of None \<Rightarrow> JSUndefined | Some v \<Rightarrow> v)"

text \<open>Object spread \<^verbatim>\<open>{ ...target, ...src }\<close>: the properties of \<open>src\<close> are written in order.\<close>

definition spread :: "jsobject \<Rightarrow> jsobject \<Rightarrow> jsobject" where
  "spread target src = fold (\<lambda>(k, v). AList.update k v) src target"

text \<open>
  Modelled from the spec: the enums and the error type of dxlink.ts, which is not among the
  sources. Section 3 lists the values of the three enums; an error has a type and a message
  (\<^verbatim>\<open>{ type, message }\<close> in \<^verbatim>\<open>Channel.error\<close> and \<^verbatim>\<open>publishError\<close>).
\<close>

datatype DXLinkConnectionState = NOT_CONNECTED | CONNECTING | CONNECTED

datatype DXLinkAuthState = UNAUTHORIZED | AUTHORIZING | AUTHORIZED

datatype DXLinkChannelStatus = REQUESTED | OPENED | CLOSED

record DXLinkError =
  error_type :: string
  error_message :: string

text \<open>
  Modelled from the spec: the union type \<^verbatim>\<open>Message\<close> of messages.ts, which is not among the
  sources, for the messages the transport delivers (the table of section 4.2, and the fields
  client.ts reads). Every message has a \<^verbatim>\<open>type\<close> tag and a \<^verbatim>\<open>channel\<close>; the first argument of
  each constructor is the channel. SETUP carries the version and the optional keepaliveTimeout
  and acceptKeepaliveTimeout, AUTH_STATE the state, AUTH the token, ERROR the error tag and the
  message, CHANNEL_REQUEST and CHANNEL_OPENED the service and the parameters.
  \<open>ChannelPayloadMessage\<close> stands for a message whose tag is none of the protocol's own tags;
  it carries the tag, the channel and the remaining properties. The messages the code builds
  and sends are object literals and are modelled as such (\<open>jsobject\<close>).
\<close>

datatype Message =
    SetupMessage nat string "int option" "int option"
  | AuthStateMessage nat DXLinkAuthState
  | AuthMessage nat string
  | KeepaliveMessage nat
  | ErrorMessage nat string string
  | ChannelRequestMessage nat string jsobject
  | ChannelOpenedMessage nat string jsobject
  | ChannelCancelMessage nat
  | ChannelClosedMessage nat
  | ChannelPayloadMessage string nat jsobject

fun mtype :: "Message \<Rightarrow> string" where
  "mtype (SetupMessage c v k a) = ''SETUP''"
| "mtype (AuthStateMessage c st) = ''AUTH_STATE''"
| "mtype (AuthMessage c t) = ''AUTH''"
| "mtype (KeepaliveMessage c) = ''KEEPALIVE''"
| "mtype (ErrorMessage c e m) = ''ERROR''"
| "mtype (ChannelRequestMessage c sv ps) = ''CHANNEL_REQUEST''"
| "mtype (ChannelOpenedMessage c sv ps) = ''CHANNEL_OPENED''"
| "mtype (ChannelCancelMessage c) = ''CHANNEL_CANCEL''"
| "mtype (ChannelClosedMessage c) = ''CHANNEL_CLOSED''"
| "mtype (ChannelPayloadMessage t c ps) = t"

fun channel :: "Message \<Rightarrow> nat" where
  "channel (SetupMessage c v k a) = c"
| "channel (AuthStateMessage c st) = c"
| "channel (AuthMessage c t) = c"
| "channel (KeepaliveMessage c) = c"
| "channel (ErrorMessage c e m) = c"
| "channel (ChannelRequestMessage c sv ps) = c"
| "channel (ChannelOpenedMessage c sv ps) = c"
| "channel (ChannelCancelMessage c) = c"
| "channel (ChannelClosedMessage c) = c"
| "channel (ChannelPayloadMessage t c ps) = c"

text \<open>
  Modelled from the spec: the classifiers \<^verbatim>\<open>isConnectionMessage\<close>, \<^verbatim>\<open>isChannelMessage\<close> and
  \<^verbatim>\<open>isChannelLifecycleMessage\<close> of messages.ts, which is not among the sources. Section 4.2: a
  connection message has channel 0, a channel message has a channel other than 0, and the
  lifecycle tags are CHANNEL_REQUEST, CHANNEL_OPENED, CHANNEL_CANCEL, CHANNEL_CLOSED and ERROR.
\<close>

definition isConnectionMessage :: "Message \<Rightarrow> bool" where
  "isConnectionMessage m = (channel m = 0)"

definition isChannelMessage :: "Message \<Rightarrow> bool" where
  "isChannelMessage m = (channel m \<noteq> 0)"

definition isChannelLifecycleMessage :: "Message \<Rightarrow> bool" where
  "isChannelLifecycleMessage m =
     (mtype m \<in> set [''CHANNEL_REQUEST'', ''CHANNEL_OPENED'', ''CHANNEL_CANCEL'',
                      ''CHANNEL_CLOSED'', ''ERROR''])"

text \<open>
  A listener is a callable kept in a \<^verbatim>\<open>Set\<close>: \<open>lid\<close> is the identity of the function object
  (what \<^verbatim>\<open>Set.add\<close> and \<^verbatim>\<open>Set.delete\<close> compare) and \<open>behaviour\<close> is what a call does as far as
  the caller can tell: \<open>None\<close> when it returns, \<open>Some e\<close> when it throws \<open>e\<close>. A \<^verbatim>\<open>Set\<close>
  iterates in insertion order, so a set of listeners is a list.
\<close>

type_synonym exn = string

datatype 'a listener = Listener (lid: nat) (behaviour: "'a \<Rightarrow> exn option")

definition addListener :: "'a listener \<Rightarrow> 'a listener list \<Rightarrow> 'a listener list" where
  "addListener l ls = (if lid l \<in> set (map lid ls) then ls else ls @ [l])"

definition deleteListener :: "'a listener \<Rightarrow> 'a listener list \<Rightarrow> 'a listener list" where
  "deleteListener l ls = filter (\<lambda>x. lid x \<noteq> lid l) ls"

text \<open>What the second argument of a logger call is.\<close>

datatype logged =
    LoggedException exn
  | LoggedError DXLinkError
  | LoggedMessage Message
  | LoggedText string

text \<open>
  Everything the code does to its collaborators, in the order it does it: calls on the
  \<^verbatim>\<open>WebSocketConnector\<close>, the call of the send function injected into a \<^verbatim>\<open>Channel\<close>, listener
  calls (listener id and arguments; for a channel's listeners the channel id comes first),
  logger and console output, and the settling of the Promise returned by \<^verbatim>\<open>connect\<close>.
\<close>

datatype effect =
    ConnectorStart
  | ConnectorStop
  | ConnectorSendMessage jsobject
  | SendMessage jsobject
  | ConnectionStateListenerCalled nat DXLinkConnectionState DXLinkConnectionState
  | AuthStateListenerCalled nat DXLinkAuthState DXLinkAuthState
  | ErrorListenerCalled nat DXLinkError
  | ChannelMessageListenerCalled nat nat Message
  | ChannelStatusListenerCalled nat nat DXLinkChannelStatus DXLinkChannelStatus
  | ChannelErrorListenerCalled nat nat DXLinkError
  | LoggerError string logged
  | LoggerWarn string logged
  | ConsoleError string nat logged
  | ConnectResolved nat
  | ConnectRejected nat string

text \<open>
  How a call ends: it returns, or an exception leaves it. Either way the mutations made so far
  stay, so both carry the state.
\<close>

datatype 'a completion = Done 'a | Raised exn 'a

fun state_of :: "'a completion \<Rightarrow> 'a" where
  "state_of (Done s) = s"
| "state_of (Raised e s) = s"

fun raised :: "'a completion \<Rightarrow> exn option" where
  "raised (Done s) = None"
| "raised (Raised e s) = Some e"

text \<open>
  The two shapes of listener loop in the sources. \<open>forEachTryCatch\<close> is
  \<^verbatim>\<open>for (const l of listeners) { try { l(args) } catch (e) { log(e) } }\<close>: it yields the calls
  and log entries. \<open>forEach\<close> is the bare \<^verbatim>\<open>for (const l of listeners) { l(args) }\<close>: the first
  exception ends the loop and leaves it.
\<close>

fun forEachTryCatch ::
  "(nat \<Rightarrow> effect) \<Rightarrow> (exn \<Rightarrow> effect) \<Rightarrow> 'a listener list \<Rightarrow> 'a \<Rightarrow> effect list" where
  "forEachTryCatch call log [] a = []"
| "forEachTryCatch call log (l # ls) a =
     (case behaviour l a of
        None \<Rightarrow> call (lid l) # forEachTryCatch call log ls a
      | Some e \<Rightarrow> call (lid l) # log e # forEachTryCatch call log ls a)"

fun forEach :: "(nat \<Rightarrow> effect) \<Rightarrow> 'a listener list \<Rightarrow> 'a \<Rightarrow> effect list completion" where
  "forEach call [] a = Done []"
| "forEach call (l # ls) a =
     (case behaviour l a of
        Some e \<Rightarrow> Raised e [call (lid l)]
      | None \<Rightarrow>
          (case forEach call ls a of
             Done fx \<Rightarrow> Done (call (lid l) # fx)
           | Raised e fx \<Rightarrow> Raised e (call (lid l) # fx)))"

section \<open>Channel\<close>

text \<open>
  The class \<^verbatim>\<open>Channel\<close>. The field \<^verbatim>\<open>id\<close> is \<open>cid\<close>, \<^verbatim>\<open>errorListeners\<close> is
  \<open>channelErrorListeners\<close> and the methods \<^verbatim>\<open>error\<close>, \<^verbatim>\<open>addErrorListener\<close> and
  \<^verbatim>\<open>removeErrorListener\<close> are \<open>channelError\<close>, \<open>channelAddErrorListener\<close> and
  \<open>channelRemoveErrorListener\<close> (the engine has members of those names too). The injected
  \<^verbatim>\<open>sendMessage\<close> is not a field: a call of it is the effect \<open>SendMessage\<close>, which the owner
  of the channel carries out. Every method returns the channel as it leaves it together with
  the effects of the call.
\<close>

record Channel =
  cid :: nat
  service :: string
  parameters :: jsobject
  status :: DXLinkChannelStatus
  messageListeners :: "Message listener list"
  statusListeners :: "(DXLinkChannelStatus \<times> DXLinkChannelStatus) listener list"
  channelErrorListeners :: "DXLinkError listener list"

definition newChannel :: "nat \<Rightarrow> string \<Rightarrow> jsobject \<Rightarrow> Channel" where
  "newChannel i sv ps =
     \<lparr>cid = i, service = sv, parameters = ps, status = REQUESTED,
      messageListeners = [], statusListeners = [], channelErrorListeners = []\<rparr>"

definition addMessageListener :: "Message listener \<Rightarrow> Channel \<Rightarrow> Channel" where
  "addMessageListener l ch = ch\<lparr>messageListeners := addListener l (messageListeners ch)\<rparr>"

definition removeMessageListener :: "Message listener \<Rightarrow> Channel \<Rightarrow> Channel" where
  "removeMessageListener l ch = ch\<lparr>messageListeners := deleteListener l (messageListeners ch)\<rparr>"

definition addStatusListener ::
  "(DXLinkChannelStatus \<times> DXLinkChannelStatus) listener \<Rightarrow> Channel \<Rightarrow> Channel" where
  "addStatusListener l ch = ch\<lparr>statusListeners := addListener l (statusListeners ch)\<rparr>"

definition removeStatusListener ::
  "(DXLinkChannelStatus \<times> DXLinkChannelStatus) listener \<Rightarrow> Channel \<Rightarrow> Channel" where
  "removeStatusListener l ch = ch\<lparr>statusListeners := deleteListener l (statusListeners ch)\<rparr>"

definition channelAddErrorListener :: "DXLinkError listener \<Rightarrow> Channel \<Rightarrow> Channel" where
  "channelAddErrorListener l ch =
     ch\<lparr>channelErrorListeners := addListener l (channelErrorListeners ch)\<rparr>"

definition channelRemoveErrorListener :: "DXLinkError listener \<Rightarrow> Channel \<Rightarrow> Channel" where
  "channelRemoveErrorListener l ch =
     ch\<lparr>channelErrorListeners := deleteListener l (channelErrorListeners ch)\<rparr>"

text \<open>
  \<^verbatim>\<open>send = ({ type, ...payload }) => { if (status !== OPENED) throw ...;
  sendMessage({ type, channel: this.id, ...payload }) }\<close>. The argument is the caller's object;
  \<open>payload\<close> is the object without its \<^verbatim>\<open>type\<close> property.
\<close>

definition send :: "jsobject \<Rightarrow> Channel \<Rightarrow> (Channel \<times> effect list) completion" where
  "send msg ch =
     (if status ch \<noteq> OPENED then Raised ''Channel is not ready'' (ch, [])
      else
        let type = getProp msg ''type'';
            payload = AList.delete ''type'' msg
        in Done (ch, [SendMessage
                       (spread [(''type'', type), (''channel'', JSNumber (int (cid ch)))] payload)]))"

definition clear :: "Channel \<Rightarrow> Channel" where
  "clear ch = ch\<lparr>messageListeners := [], statusListeners := [], channelErrorListeners := []\<rparr>"

definition setStatus :: "DXLinkChannelStatus \<Rightarrow> Channel \<Rightarrow> Channel \<times> effect list" where
  "setStatus newStatus ch =
     (if status ch = newStatus then (ch, [])
      else
        let prev = status ch
        in (ch\<lparr>status := newStatus\<rparr>,
            forEachTryCatch
              (\<lambda>i. ChannelStatusListenerCalled (cid ch) i newStatus prev)
              (\<lambda>e. ConsoleError ''Error in channel status listener'' (cid ch) (LoggedException e))
              (statusListeners ch) (newStatus, prev)))"

definition channelError :: "DXLinkError \<Rightarrow> Channel \<Rightarrow> (Channel \<times> effect list) completion" where
  "channelError err ch =
     send [(''type'', JSString ''ERROR''), (''error'', JSString (error_type err)),
           (''message'', JSString (error_message err))] ch"

definition close :: "Channel \<Rightarrow> (Channel \<times> effect list) completion" where
  "close ch =
     (case send [(''type'', JSString ''CHANNEL_CANCEL'')] ch of
        Raised e r \<Rightarrow> Raised e r
      | Done (ch1, fx1) \<Rightarrow>
          let ch2 = clear ch1;
              (ch3, fx3) = setStatus CLOSED ch2
          in Done (ch3, fx1 @ fx3))"

definition processPayloadMessage :: "Message \<Rightarrow> Channel \<Rightarrow> (Channel \<times> effect list) completion" where
  "processPayloadMessage message ch =
     (case forEach (\<lambda>i. ChannelMessageListenerCalled (cid ch) i message)
             (messageListeners ch) message of
        Done fx \<Rightarrow> Done (ch, fx)
      | Raised e fx \<Rightarrow> Raised e (ch, fx))"

definition processStatusOpened :: "Channel \<Rightarrow> Channel \<times> effect list" where
  "processStatusOpened ch = setStatus OPENED ch"

definition processStatusRequested :: "Channel \<Rightarrow> Channel \<times> effect list" where
  "processStatusRequested ch = setStatus REQUESTED ch"

definition processStatusClosed :: "Channel \<Rightarrow> Channel \<times> effect list" where
  "processStatusClosed ch = (let (ch1, fx) = setStatus CLOSED ch in (clear ch1, fx))"

definition processError :: "DXLinkError \<Rightarrow> Channel \<Rightarrow> Channel \<times> effect list" where
  "processError err ch =
     (if length (channelErrorListeners ch) = 0
      then (ch, [ConsoleError ''Unhandled error in channel'' (cid ch) (LoggedError err)])
      else (ch, forEachTryCatch
                  (\<lambda>i. ChannelErrorListenerCalled (cid ch) i err)
                  (\<lambda>e. ConsoleError ''Error in channel error listener'' (cid ch) (LoggedException e))
                  (channelErrorListeners ch) err))"

section \<open>The connection engine\<close>

record DXLinkWebSocketConfig =
  keepaliveInterval :: int
  keepaliveTimeout :: int
  acceptKeepaliveTimeout :: int
  actionTimeout :: int

definition defaultConfig :: DXLinkWebSocketConfig where
  "defaultConfig =
     \<lparr>keepaliveInterval = 30, keepaliveTimeout = 60, acceptKeepaliveTimeout = 60,
      actionTimeout = 10\<rparr>"

record DXLinkConnectionDetails =
  protocolVersion :: string
  clientVersion :: string
  serverVersion :: "string option"
  clientKeepaliveTimeout :: "int option"
  serverKeepaliveTimeout :: "int option"

definition DXLINK_WS_PROTOCOL_VERSION :: string where
  "DXLINK_WS_PROTOCOL_VERSION = ''0.1''"

definition DEFAULT_CONNECTION_DETAILS :: DXLinkConnectionDetails where
  "DEFAULT_CONNECTION_DETAILS =
     \<lparr>protocolVersion = DXLINK_WS_PROTOCOL_VERSION, clientVersion = ''0.0.0'',
      serverVersion = None, clientKeepaliveTimeout = None, serverKeepaliveTimeout = None\<rparr>"

text \<open>
  The callbacks handed to \<^verbatim>\<open>schedule\<close>, one constructor per closure in client.ts; the closure
  of \<^verbatim>\<open>timeoutCheck\<close> captures \<^verbatim>\<open>timeoutMills\<close>. A timer of the registry \<^verbatim>\<open>timeoutIds\<close> keeps
  its key, callback and delay; \<open>timer_fired\<close> says that the host has run it already (the
  registry keeps the handle until the key is cancelled or scheduled again).
\<close>

datatype callback =
    SetupTimeoutCallback
  | AuthStateTimeoutCallback
  | KeepaliveCallback
  | TimeoutCheckCallback int
  | ReconnectCallback

record timer =
  timer_key :: string
  timer_callback :: callback
  timer_delay :: int
  timer_fired :: bool

text \<open>
  A connection-state listener is the user's, or the one \<^verbatim>\<open>connect\<close> registers to settle the
  Promise it returns (the argument numbers the Promise).
\<close>

datatype ConnectionStateChangeListener =
    UserListener "(DXLinkConnectionState \<times> DXLinkConnectionState) listener"
  | ConnectPromise nat

text \<open>
  The fields of \<^verbatim>\<open>DXLinkWebSocket\<close>, without the logger. \<open>connector\<close> is the url of the
  \<^verbatim>\<open>WebSocketConnector\<close> held, if any (connector.ts is not among the sources: calls of its
  \<^verbatim>\<open>start\<close>, \<^verbatim>\<open>stop\<close> and \<^verbatim>\<open>sendMessage\<close> are effects and are taken to return). The \<^verbatim>\<open>Map\<close> \<open>channels\<close> is the list of its keys in insertion order, and \<open>heap\<close>
  holds every \<^verbatim>\<open>Channel\<close> object created, by id: the caller of \<^verbatim>\<open>openChannel\<close> and the table
  share the object. \<open>trace\<close> collects the effects and \<open>nextPromise\<close> numbers the Promises.
\<close>

record DXLinkWebSocket =
  config :: DXLinkWebSocketConfig
  connector :: "string option"
  connectionState :: DXLinkConnectionState
  connectionDetails :: DXLinkConnectionDetails
  authState :: DXLinkAuthState
  connectionStateChangeListeners :: "ConnectionStateChangeListener list"
  errorListeners :: "DXLinkError listener list"
  authStateChangeListeners :: "(DXLinkAuthState \<times> DXLinkAuthState) listener list"
  timeoutIds :: "timer list"
  isFirstAuthState :: bool
  lastSettedAuthToken :: "string option"
  lastReceivedMillis :: int
  lastSentMillis :: int
  reconnectAttempts :: int
  globalChannelId :: nat
  channels :: "nat list"
  heap :: "nat \<Rightarrow> Channel option"
  trace :: "effect list"
  nextPromise :: nat

definition newDXLinkWebSocket :: "DXLinkWebSocketConfig \<Rightarrow> DXLinkWebSocket" where
  "newDXLinkWebSocket cfg =
     \<lparr>config = cfg, connector = None, connectionState = NOT_CONNECTED,
      connectionDetails = DEFAULT_CONNECTION_DETAILS, authState = UNAUTHORIZED,
      connectionStateChangeListeners = [], errorListeners = [], authStateChangeListeners = [],
      timeoutIds = [], isFirstAuthState = True, lastSettedAuthToken = None,
      lastReceivedMillis = 0, lastSentMillis = 0, reconnectAttempts = 0, globalChannelId = 1,
      channels = [], heap = (\<lambda>i. None), trace = [], nextPromise = 0\<rparr>"

text \<open>Sequencing: what follows a call runs only when the call returned.\<close>

fun andThen :: "'a completion \<Rightarrow> ('a \<Rightarrow> 'a completion) \<Rightarrow> 'a completion" where
  "andThen (Done s) f = f s"
| "andThen (Raised e s) f = Raised e s"

definition emit :: "effect list \<Rightarrow> DXLinkWebSocket \<Rightarrow> DXLinkWebSocket" where
  "emit fx s = s\<lparr>trace := trace s @ fx\<rparr>"

text \<open>Decimal digits of an integer, for the numbers spliced into message texts.\<close>

fun showNat :: "nat \<Rightarrow> string" where
  "showNat n =
     (if n < 10 then [char_of (48 + n)] else showNat (n div 10) @ [char_of (48 + n mod 10)])"

declare showNat.simps [simp del]

definition showInt :: "int \<Rightarrow> string" where
  "showInt i = (if i < 0 then ''-'' @ showNat (nat (- i)) else showNat (nat i))"

subsection \<open>Timers and sending\<close>

definition cancelSchedule :: "string \<Rightarrow> DXLinkWebSocket \<Rightarrow> DXLinkWebSocket" where
  "cancelSchedule key s = s\<lparr>timeoutIds := filter (\<lambda>t. timer_key t \<noteq> key) (timeoutIds s)\<rparr>"

definition schedule :: "string \<Rightarrow> callback \<Rightarrow> int \<Rightarrow> DXLinkWebSocket \<Rightarrow> DXLinkWebSocket" where
  "schedule key cb timeout s =
     (let s1 = cancelSchedule key s
      in s1\<lparr>timeoutIds := timeoutIds s1 @
              [\<lparr>timer_key = key, timer_callback = cb, timer_delay = timeout,
                timer_fired = False\<rparr>]\<rparr>)"

text \<open>\<^verbatim>\<open>for (const key of Object.keys(this.timeoutIds)) this.cancelSchedule(key)\<close>\<close>

definition cancelAllSchedules :: "DXLinkWebSocket \<Rightarrow> DXLinkWebSocket" where
  "cancelAllSchedules s = fold cancelSchedule (map timer_key (timeoutIds s)) s"

definition scheduleKeepalive :: "DXLinkWebSocket \<Rightarrow> DXLinkWebSocket" where
  "scheduleKeepalive s =
     schedule ''KEEPALIVE'' KeepaliveCallback (keepaliveInterval (config s) * 1000) s"

text \<open>\<open>now\<close> is what \<^verbatim>\<open>Date.now()\<close> returns during the call.\<close>

definition sendMessage :: "jsobject \<Rightarrow> int \<Rightarrow> DXLinkWebSocket \<Rightarrow> DXLinkWebSocket" where
  "sendMessage message now s =
     (let s1 = (case connector s of None \<Rightarrow> s | Some url \<Rightarrow> emit [ConnectorSendMessage message] s);
          s2 = scheduleKeepalive s1
      in s2\<lparr>lastSentMillis := now\<rparr>)"

subsection \<open>State changes and listeners\<close>

fun sameListener :: "ConnectionStateChangeListener \<Rightarrow> ConnectionStateChangeListener \<Rightarrow> bool" where
  "sameListener (UserListener a) (UserListener b) = (lid a = lid b)"
| "sameListener (ConnectPromise p) (ConnectPromise q) = (p = q)"
| "sameListener a b = False"

definition addConnectionStateChangeListener ::
  "ConnectionStateChangeListener \<Rightarrow> DXLinkWebSocket \<Rightarrow> DXLinkWebSocket" where
  "addConnectionStateChangeListener l s =
     s\<lparr>connectionStateChangeListeners :=
         (if list_ex (sameListener l) (connectionStateChangeListeners s)
          then connectionStateChangeListeners s
          else connectionStateChangeListeners s @ [l])\<rparr>"

definition removeConnectionStateChangeListener ::
  "ConnectionStateChangeListener \<Rightarrow> DXLinkWebSocket \<Rightarrow> DXLinkWebSocket" where
  "removeConnectionStateChangeListener l s =
     s\<lparr>connectionStateChangeListeners :=
         filter (\<lambda>x. \<not> sameListener l x) (connectionStateChangeListeners s)\<rparr>"

definition addAuthStateChangeListener ::
  "(DXLinkAuthState \<times> DXLinkAuthState) listener \<Rightarrow> DXLinkWebSocket \<Rightarrow> DXLinkWebSocket" where
  "addAuthStateChangeListener l s =
     s\<lparr>authStateChangeListeners := addListener l (authStateChangeListeners s)\<rparr>"

definition removeAuthStateChangeListener ::
  "(DXLinkAuthState \<times> DXLinkAuthState) listener \<Rightarrow> DXLinkWebSocket \<Rightarrow> DXLinkWebSocket" where
  "removeAuthStateChangeListener l s =
     s\<lparr>authStateChangeListeners := deleteListener l (authStateChangeListeners s)\<rparr>"

definition addErrorListener :: "DXLinkError listener \<Rightarrow> DXLinkWebSocket \<Rightarrow> DXLinkWebSocket" where
  "addErrorListener l s = s\<lparr>errorListeners := addListener l (errorListeners s)\<rparr>"

definition removeErrorListener :: "DXLinkError listener \<Rightarrow> DXLinkWebSocket \<Rightarrow> DXLinkWebSocket" where
  "removeErrorListener l s = s\<lparr>errorListeners := deleteListener l (errorListeners s)\<rparr>"

text \<open>
  The loop of \<^verbatim>\<open>setConnectionState\<close>: \<^verbatim>\<open>for (const listener of listeners) listener(newStatus,
  prev)\<close>, with no try/catch. The listener of \<^verbatim>\<open>connect\<close> removes itself and settles its Promise.
\<close>

fun callConnectionStateListeners ::
  "ConnectionStateChangeListener list \<Rightarrow> DXLinkConnectionState \<Rightarrow> DXLinkConnectionState \<Rightarrow>
   DXLinkWebSocket \<Rightarrow> DXLinkWebSocket completion" where
  "callConnectionStateListeners [] newStatus prev s = Done s"
| "callConnectionStateListeners (UserListener l # ls) newStatus prev s =
     (let s1 = emit [ConnectionStateListenerCalled (lid l) newStatus prev] s
      in case behaviour l (newStatus, prev) of
           Some e \<Rightarrow> Raised e s1
         | None \<Rightarrow> callConnectionStateListeners ls newStatus prev s1)"
| "callConnectionStateListeners (ConnectPromise p # ls) newStatus prev s =
     (let s1 = removeConnectionStateChangeListener (ConnectPromise p) s;
          s2 = (if newStatus = CONNECTED then emit [ConnectResolved p] s1
                else if newStatus = NOT_CONNECTED
                     then emit [ConnectRejected p ''Connection failed''] s1
                else s1)
      in callConnectionStateListeners ls newStatus prev s2)"

definition setConnectionState ::
  "DXLinkConnectionState \<Rightarrow> DXLinkWebSocket \<Rightarrow> DXLinkWebSocket completion" where
  "setConnectionState newStatus s =
     (let prev = connectionState s
      in if prev = newStatus then Done s
         else
           let s1 = s\<lparr>connectionState := newStatus\<rparr>
           in callConnectionStateListeners (connectionStateChangeListeners s1) newStatus prev s1)"

definition setAuthState :: "DXLinkAuthState \<Rightarrow> DXLinkWebSocket \<Rightarrow> DXLinkWebSocket" where
  "setAuthState newState s =
     (let prev = authState s;
          s1 = s\<lparr>authState := newState\<rparr>
      in emit (forEachTryCatch
                 (\<lambda>i. AuthStateListenerCalled i newState prev)
                 (\<lambda>e. LoggerError ''Auth state listener error'' (LoggedException e))
                 (authStateChangeListeners s1) (newState, prev)) s1)"

definition publishError :: "DXLinkError \<Rightarrow> DXLinkWebSocket \<Rightarrow> DXLinkWebSocket" where
  "publishError err s =
     (if length (errorListeners s) = 0
      then emit [LoggerError ''Unhandled dxLink error'' (LoggedError err)] s
      else emit (forEachTryCatch
                   (\<lambda>i. ErrorListenerCalled i err)
                   (\<lambda>e. LoggerError ''Error listener error'' (LoggedException e))
                   (errorListeners s) err) s)"

definition sendAuthMessage :: "string \<Rightarrow> int \<Rightarrow> DXLinkWebSocket \<Rightarrow> DXLinkWebSocket" where
  "sendAuthMessage token now s =
     (let s1 = setAuthState AUTHORIZING s
      in sendMessage [(''type'', JSString ''AUTH''), (''channel'', JSNumber 0),
                      (''token'', JSString token)] now s1)"

subsection \<open>Connect, reconnect, disconnect\<close>

definition disconnect :: "DXLinkWebSocket \<Rightarrow> DXLinkWebSocket completion" where
  "disconnect s =
     (if connectionState s = NOT_CONNECTED then Done s
      else
        let s1 = (case connector s of None \<Rightarrow> s | Some url \<Rightarrow> emit [ConnectorStop] s);
            s2 = s1\<lparr>connector := None\<rparr>;
            s3 = cancelAllSchedules s2;
            s4 = s3\<lparr>connectionDetails := DEFAULT_CONNECTION_DETAILS, lastReceivedMillis := 0,
                    lastSentMillis := 0, isFirstAuthState := True, reconnectAttempts := 0\<rparr>
        in andThen (setConnectionState NOT_CONNECTED s4)
             (\<lambda>s5. Done (setAuthState UNAUTHORIZED s5)))"

definition reconnect :: "DXLinkWebSocket \<Rightarrow> DXLinkWebSocket completion" where
  "reconnect s =
     (if connectionState s = NOT_CONNECTED \<or> connector s = None then Done s
      else
        let s1 = emit [ConnectorStop] s;
            s2 = cancelAllSchedules s1;
            s3 = s2\<lparr>connectionDetails := DEFAULT_CONNECTION_DETAILS, lastReceivedMillis := 0,
                    lastSentMillis := 0, isFirstAuthState := True\<rparr>;
            s4 = s3\<lparr>reconnectAttempts := reconnectAttempts s3 + 1\<rparr>
        in andThen (setConnectionState CONNECTING s4)
             (\<lambda>s5. Done (schedule ''RECONNECT'' ReconnectCallback
                             (reconnectAttempts s5 * 1000) s5)))"

text \<open>
  \<^verbatim>\<open>connect\<close> is an async function: an exception inside it rejects the Promise it returns,
  which is \<open>Raised\<close> here.
\<close>

definition connect :: "string \<Rightarrow> DXLinkWebSocket \<Rightarrow> DXLinkWebSocket completion" where
  "connect url s =
     (if connector s = Some url then Done s
      else
        andThen (disconnect s) (\<lambda>s1.
        andThen (setConnectionState CONNECTING s1) (\<lambda>s2.
          let s3 = s2\<lparr>connector := Some url\<rparr>;
              s4 = emit [ConnectorStart] s3;
              p = nextPromise s4;
              s5 = addConnectionStateChangeListener (ConnectPromise p) s4
          in Done (s5\<lparr>nextPromise := p + 1\<rparr>))))"

definition setAuthToken :: "string \<Rightarrow> int \<Rightarrow> DXLinkWebSocket \<Rightarrow> DXLinkWebSocket" where
  "setAuthToken token now s =
     (let s1 = s\<lparr>lastSettedAuthToken := Some token\<rparr>
      in if connectionState s1 = CONNECTED then sendAuthMessage token now s1 else s1)"

subsection \<open>Channels of the engine\<close>

text \<open>
  A \<^verbatim>\<open>Channel\<close> reference is the channel's id, read through \<open>heap\<close>; a reference always points
  at an object, so the \<open>None\<close> branches below are never taken on a state the code builds.
\<close>

definition requestChannel :: "nat \<Rightarrow> int \<Rightarrow> DXLinkWebSocket \<Rightarrow> DXLinkWebSocket" where
  "requestChannel i now s =
     (case heap s i of
        None \<Rightarrow> s
      | Some ch \<Rightarrow>
          let s1 = sendMessage
                     [(''type'', JSString ''CHANNEL_REQUEST''), (''channel'', JSNumber (int (cid ch))),
                      (''service'', JSString (service ch)),
                      (''parameters'', JSObject (parameters ch))] now s;
              (ch1, fx) = processStatusRequested ch
          in emit fx (s1\<lparr>heap := (heap s1)(i \<mapsto> ch1)\<rparr>))"

definition openChannel :: "string \<Rightarrow> jsobject \<Rightarrow> int \<Rightarrow> DXLinkWebSocket \<Rightarrow> DXLinkWebSocket" where
  "openChannel sv ps now s =
     (let channelId = globalChannelId s;
          s1 = s\<lparr>globalChannelId := channelId + 2\<rparr>;
          s2 = s1\<lparr>heap := (heap s1)(channelId \<mapsto> newChannel channelId sv ps),
                  channels := (if channelId \<in> set (channels s1) then channels s1
                               else channels s1 @ [channelId])\<rparr>
      in if connectionState s2 = CONNECTED \<and> authState s2 = AUTHORIZED
         then requestChannel channelId now s2 else s2)"

text \<open>
  \<^verbatim>\<open>for (const channel of this.channels.values())\<close>: the loop visits every entry of the table
  once, in insertion order; deleting the entry being visited does not disturb it.
\<close>

fun requestActiveChannelsLoop :: "nat list \<Rightarrow> int \<Rightarrow> DXLinkWebSocket \<Rightarrow> DXLinkWebSocket" where
  "requestActiveChannelsLoop [] now s = s"
| "requestActiveChannelsLoop (i # rest) now s =
     (case heap s i of
        None \<Rightarrow> requestActiveChannelsLoop rest now s
      | Some ch \<Rightarrow>
          if status ch = CLOSED
          then requestActiveChannelsLoop rest now (s\<lparr>channels := removeAll (cid ch) (channels s)\<rparr>)
          else requestActiveChannelsLoop rest now (requestChannel i now s))"

definition requestActiveChannels :: "int \<Rightarrow> DXLinkWebSocket \<Rightarrow> DXLinkWebSocket" where
  "requestActiveChannels now s = requestActiveChannelsLoop (channels s) now s"

subsection \<open>Messages from the transport\<close>

text \<open>The arguments are \<^verbatim>\<open>serverSetup.version\<close> and \<^verbatim>\<open>serverSetup.keepaliveTimeout\<close>.\<close>

definition processSetupMessage ::
  "string \<Rightarrow> int option \<Rightarrow> DXLinkWebSocket \<Rightarrow> DXLinkWebSocket completion" where
  "processSetupMessage version serverKeepalive s =
     (let s1 = cancelSchedule ''SETUP_TIMEOUT'' s;
          r = (if connectionState s1 = CONNECTING \<or> connectionState s1 = CONNECTED
               then
                 let s2 = s1\<lparr>connectionDetails := (connectionDetails s1)
                            \<lparr>serverVersion := Some version,
                             clientKeepaliveTimeout := Some (keepaliveTimeout (config s1)),
                             serverKeepaliveTimeout := serverKeepalive\<rparr>\<rparr>;
                     s3 = s2\<lparr>reconnectAttempts := 0\<rparr>
                 in if lastSettedAuthToken s3 = None then setConnectionState CONNECTED s3
                    else Done s3
               else Done s1)
      in andThen r (\<lambda>s4.
           let timeoutMills = (case serverKeepalive of None \<Rightarrow> 60 | Some k \<Rightarrow> k) * 1000
           in Done (schedule ''TIMEOUT'' (TimeoutCheckCallback timeoutMills) timeoutMills s4)))"

definition processAuthStateMessage ::
  "DXLinkAuthState \<Rightarrow> int \<Rightarrow> DXLinkWebSocket \<Rightarrow> DXLinkWebSocket completion" where
  "processAuthStateMessage state now s =
     (let s1 = cancelSchedule ''AUTH_STATE_TIMEOUT'' s;
          s2 = (if isFirstAuthState s1 then s1\<lparr>isFirstAuthState := False\<rparr>
                else if state = UNAUTHORIZED then s1\<lparr>lastSettedAuthToken := None\<rparr>
                else s1);
          r = (if state = AUTHORIZED
               then andThen (setConnectionState CONNECTED s2)
                      (\<lambda>s3. Done (requestActiveChannels now s3))
               else Done s2)
      in andThen r (\<lambda>s4. Done (setAuthState state s4)))"

text \<open>Storing what a method of the channel object \<open>i\<close> returned.\<close>

definition updateChannel :: "nat \<Rightarrow> Channel \<times> effect list \<Rightarrow> DXLinkWebSocket \<Rightarrow> DXLinkWebSocket" where
  "updateChannel i r s = emit (snd r) (s\<lparr>heap := (heap s)(i \<mapsto> fst r)\<rparr>)"

definition processMessage :: "Message \<Rightarrow> int \<Rightarrow> DXLinkWebSocket \<Rightarrow> DXLinkWebSocket completion" where
  "processMessage message now s =
     (let s1 = s\<lparr>lastReceivedMillis := now\<rparr>;
          s2 = (if lastReceivedMillis s1 - lastSentMillis s1 \<ge> keepaliveInterval (config s1) * 1000
                then sendMessage [(''type'', JSString ''KEEPALIVE''), (''channel'', JSNumber 0)] now s1
                else s1);
          unhandled = emit [LoggerWarn ''Unhandeled message: '' (LoggedText (mtype message))] s2
      in if isConnectionMessage message then
           (case message of
              SetupMessage c version k a \<Rightarrow> processSetupMessage version k s2
            | AuthStateMessage c state \<Rightarrow> processAuthStateMessage state now s2
            | ErrorMessage c e m \<Rightarrow> Done (publishError \<lparr>error_type = e, error_message = m\<rparr> s2)
            | KeepaliveMessage c \<Rightarrow> Done s2
            | _ \<Rightarrow> Done unhandled)
         else if isChannelMessage message then
           (case (if channel message \<in> set (channels s2) then heap s2 (channel message) else None) of
              None \<Rightarrow>
                Done (emit [LoggerWarn ''Received lifecycle message for unknown channel''
                              (LoggedMessage message)] s2)
            | Some ch \<Rightarrow>
                if isChannelLifecycleMessage message then
                  (case message of
                     ChannelOpenedMessage c sv ps \<Rightarrow>
                       Done (updateChannel (channel message) (processStatusOpened ch) s2)
                   | ChannelClosedMessage c \<Rightarrow>
                       Done (updateChannel (channel message) (processStatusClosed ch) s2)
                   | ErrorMessage c e m \<Rightarrow>
                       Done (updateChannel (channel message)
                               (processError \<lparr>error_type = e, error_message = m\<rparr> ch) s2)
                   | _ \<Rightarrow> Done s2)
                else
                  (case processPayloadMessage message ch of
                     Done r \<Rightarrow> Done (updateChannel (channel message) r s2)
                   | Raised e r \<Rightarrow> Raised e (updateChannel (channel message) r s2)))
         else Done unhandled)"

definition processTransportOpen :: "int \<Rightarrow> DXLinkWebSocket \<Rightarrow> DXLinkWebSocket" where
  "processTransportOpen now s =
     (let setupMessage =
            [(''type'', JSString ''SETUP''), (''channel'', JSNumber 0),
             (''version'', JSString (protocolVersion (connectionDetails s) @ ''-'' @
                                     clientVersion (connectionDetails s))),
             (''keepaliveTimeout'', JSNumber (keepaliveTimeout (config s))),
             (''acceptKeepaliveTimeout'', JSNumber (acceptKeepaliveTimeout (config s)))];
          s1 = schedule ''SETUP_TIMEOUT'' SetupTimeoutCallback (actionTimeout (config s) * 1000) s;
          s2 = sendMessage setupMessage now s1;
          s3 = schedule ''AUTH_STATE_TIMEOUT'' AuthStateTimeoutCallback
                 (actionTimeout (config s2) * 1000) s2
      in case lastSettedAuthToken s3 of
           None \<Rightarrow> s3
         | Some token \<Rightarrow> sendAuthMessage token now s3)"

definition processTransportClose :: "DXLinkWebSocket \<Rightarrow> DXLinkWebSocket completion" where
  "processTransportClose s =
     (if authState s = UNAUTHORIZED then disconnect (s\<lparr>lastSettedAuthToken := None\<rparr>)
      else reconnect s)"

subsection \<open>Timer callbacks\<close>

definition timeoutCheck :: "int \<Rightarrow> int \<Rightarrow> DXLinkWebSocket \<Rightarrow> DXLinkWebSocket completion" where
  "timeoutCheck timeoutMills now s =
     (let noKeepaliveDuration = now - lastReceivedMillis s
      in if noKeepaliveDuration \<ge> timeoutMills
         then reconnect
                (sendMessage
                   [(''type'', JSString ''ERROR''), (''channel'', JSNumber 0),
                    (''error'', JSString ''TIMEOUT''),
                    (''message'', JSString (''No keepalive received for '' @
                                            showInt noKeepaliveDuration @ ''ms''))] now s)
         else
           let nextTimeout = max 200 (timeoutMills - noKeepaliveDuration)
           in Done (schedule ''TIMEOUT'' (TimeoutCheckCallback timeoutMills) nextTimeout s))"

text \<open>
  The two timeout closures of \<^verbatim>\<open>processTransportOpen\<close> differ in the word of their message
  only.
\<close>

definition actionTimeoutExpired :: "string \<Rightarrow> int \<Rightarrow> DXLinkWebSocket \<Rightarrow> DXLinkWebSocket completion" where
  "actionTimeoutExpired what now s =
     (let text = ''No '' @ what @ '' message received for '' @ showInt (actionTimeout (config s)) @ ''s'';
          s1 = sendMessage
                 [(''type'', JSString ''ERROR''), (''channel'', JSNumber 0),
                  (''error'', JSString ''TIMEOUT''), (''message'', JSString text)] now s;
          s2 = publishError \<lparr>error_type = ''TIMEOUT'', error_message = text @ '' from server''\<rparr> s1
      in disconnect s2)"

fun runCallback :: "callback \<Rightarrow> int \<Rightarrow> DXLinkWebSocket \<Rightarrow> DXLinkWebSocket completion" where
  "runCallback SetupTimeoutCallback now s = actionTimeoutExpired ''setup'' now s"
| "runCallback AuthStateTimeoutCallback now s = actionTimeoutExpired ''auth state'' now s"
| "runCallback KeepaliveCallback now s =
     Done (scheduleKeepalive
             (sendMessage [(''type'', JSString ''KEEPALIVE''), (''channel'', JSNumber 0)] now s))"
| "runCallback (TimeoutCheckCallback timeoutMills) now s = timeoutCheck timeoutMills now s"
| "runCallback ReconnectCallback now s =
     (case connector s of None \<Rightarrow> Done s | Some url \<Rightarrow> Done (emit [ConnectorStart] s))"

text \<open>The host runs the pending timer of a key: once, and the registry keeps its entry.\<close>

definition fireTimer :: "string \<Rightarrow> int \<Rightarrow> DXLinkWebSocket \<Rightarrow> DXLinkWebSocket completion" where
  "fireTimer key now s =
     (case find (\<lambda>t. timer_key t = key \<and> \<not> timer_fired t) (timeoutIds s) of
        None \<Rightarrow> Done s
      | Some t \<Rightarrow>
          runCallback (timer_callback t) now
            (s\<lparr>timeoutIds := map (\<lambda>x. if timer_key x = key then x\<lparr>timer_fired := True\<rparr> else x)
                                (timeoutIds s)\<rparr>))"

subsection \<open>Calls on a channel handle\<close>

text \<open>
  The engine hands its \<^verbatim>\<open>sendMessage\<close> to every channel, so the effect \<open>SendMessage\<close> of a
  channel method is a call of \<open>sendMessage\<close>; the other effects go to the trace.
\<close>

fun perform :: "effect list \<Rightarrow> int \<Rightarrow> DXLinkWebSocket \<Rightarrow> DXLinkWebSocket" where
  "perform [] now s = s"
| "perform (SendMessage m # fx) now s = perform fx now (sendMessage m now s)"
| "perform (e # fx) now s = perform fx now (emit [e] s)"

definition onChannel ::
  "nat \<Rightarrow> (Channel \<Rightarrow> (Channel \<times> effect list) completion) \<Rightarrow> int \<Rightarrow> DXLinkWebSocket \<Rightarrow>
   DXLinkWebSocket completion" where
  "onChannel i method now s =
     (case heap s i of
        None \<Rightarrow> Done s
      | Some ch \<Rightarrow>
          (case method ch of
             Done (ch1, fx) \<Rightarrow> Done (perform fx now (s\<lparr>heap := (heap s)(i \<mapsto> ch1)\<rparr>))
           | Raised e (ch1, fx) \<Rightarrow> Raised e (perform fx now (s\<lparr>heap := (heap s)(i \<mapsto> ch1)\<rparr>))))"

subsection \<open>Runs\<close>

text \<open>
  What can happen to an engine: a call of its public interface or of a channel handle, a
  callback of the transport, or a timer of the host. Each comes with the clock's reading.
\<close>

datatype event =
    Connect string
  | Reconnect
  | Disconnect
  | SetAuthToken string
  | OpenChannel string jsobject
  | AddConnectionStateChangeListener "(DXLinkConnectionState \<times> DXLinkConnectionState) listener"
  | RemoveConnectionStateChangeListener "(DXLinkConnectionState \<times> DXLinkConnectionState) listener"
  | AddAuthStateChangeListener "(DXLinkAuthState \<times> DXLinkAuthState) listener"
  | RemoveAuthStateChangeListener "(DXLinkAuthState \<times> DXLinkAuthState) listener"
  | AddErrorListener "DXLinkError listener"
  | RemoveErrorListener "DXLinkError listener"
  | ChannelSend nat jsobject
  | ChannelError nat DXLinkError
  | ChannelClose nat
  | ChannelAddMessageListener nat "Message listener"
  | ChannelRemoveMessageListener nat "Message listener"
  | ChannelAddStatusListener nat "(DXLinkChannelStatus \<times> DXLinkChannelStatus) listener"
  | ChannelRemoveStatusListener nat "(DXLinkChannelStatus \<times> DXLinkChannelStatus) listener"
  | ChannelAddErrorListener nat "DXLinkError listener"
  | ChannelRemoveErrorListener nat "DXLinkError listener"
  | TransportOpen
  | TransportMessage Message
  | TransportClose
  | TimerFired string

text \<open>A method of a channel that changes the channel only.\<close>

definition quiet :: "(Channel \<Rightarrow> Channel) \<Rightarrow> Channel \<Rightarrow> (Channel \<times> effect list) completion" where
  "quiet f ch = Done (f ch, [])"

fun step :: "event \<Rightarrow> int \<Rightarrow> DXLinkWebSocket \<Rightarrow> DXLinkWebSocket completion" where
  "step (Connect url) now s = connect url s"
| "step Reconnect now s = reconnect s"
| "step Disconnect now s = disconnect s"
| "step (SetAuthToken token) now s = Done (setAuthToken token now s)"
| "step (OpenChannel sv ps) now s = Done (openChannel sv ps now s)"
| "step (AddConnectionStateChangeListener l) now s =
     Done (addConnectionStateChangeListener (UserListener l) s)"
| "step (RemoveConnectionStateChangeListener l) now s =
     Done (removeConnectionStateChangeListener (UserListener l) s)"
| "step (AddAuthStateChangeListener l) now s = Done (addAuthStateChangeListener l s)"
| "step (RemoveAuthStateChangeListener l) now s = Done (removeAuthStateChangeListener l s)"
| "step (AddErrorListener l) now s = Done (addErrorListener l s)"
| "step (RemoveErrorListener l) now s = Done (removeErrorListener l s)"
| "step (ChannelSend i msg) now s = onChannel i (send msg) now s"
| "step (ChannelError i err) now s = onChannel i (channelError err) now s"
| "step (ChannelClose i) now s = onChannel i close now s"
| "step (ChannelAddMessageListener i l) now s = onChannel i (quiet (addMessageListener l)) now s"
| "step (ChannelRemoveMessageListener i l) now s =
     onChannel i (quiet (removeMessageListener l)) now s"
| "step (ChannelAddStatusListener i l) now s = onChannel i (quiet (addStatusListener l)) now s"
| "step (ChannelRemoveStatusListener i l) now s =
     onChannel i (quiet (removeStatusListener l)) now s"
| "step (ChannelAddErrorListener i l) now s =
     onChannel i (quiet (channelAddErrorListener l)) now s"
| "step (ChannelRemoveErrorListener i l) now s =
     onChannel i (quiet (channelRemoveErrorListener l)) now s"
| "step TransportOpen now s = Done (processTransportOpen now s)"
| "step (TransportMessage m) now s = processMessage m now s"
| "step TransportClose now s = processTransportClose s"
| "step (TimerFired key) now s = fireTimer key now s"

text \<open>An exception leaves the call to its caller; the engine stays as the call left it.\<close>

fun run :: "(event \<times> int) list \<Rightarrow> DXLinkWebSocket \<Rightarrow> DXLinkWebSocket" where
  "run [] s = s"
| "run ((ev, now) # rest) s = run rest (state_of (step ev now s))"

section \<open>The version-2 AuthManager\<close>

text \<open>
  The class \<^verbatim>\<open>AuthManager\<close> of v2/auth.ts. Its \<^verbatim>\<open>AuthState\<close> (of the version-2 messages.ts,
  not among the sources) is the type of the \<^verbatim>\<open>state\<close> of an AUTH_STATE message, taken here with
  the values of section 3. A Promise is known by the calls made on its \<^verbatim>\<open>resolve\<close> and \<^verbatim>\<open>reject\<close>,
  in order; \<open>Reject None\<close> is \<^verbatim>\<open>reject()\<close>, with no value. Only the first call settles it.
\<close>

type_synonym AuthState = DXLinkAuthState

datatype settle = Resolve | Reject "string option"

datatype promiseState = Pending | Fulfilled | Rejected "string option"

fun promiseStateOf :: "settle list \<Rightarrow> promiseState" where
  "promiseStateOf [] = Pending"
| "promiseStateOf (Resolve # cs) = Fulfilled"
| "promiseStateOf (Reject v # cs) = Rejected v"

text \<open>
  The handlers of the set \<^verbatim>\<open>handlers\<close>: the closure \<^verbatim>\<open>auth\<close> registers (with its Promise), the
  closure \<^verbatim>\<open>whenReady\<close> registers, or one given to \<^verbatim>\<open>addHandler\<close>.
\<close>

datatype AuthStateHandler =
    AuthHandler nat
  | WhenReadyHandler nat
  | GivenHandler "AuthState listener"

text \<open>
  \<open>timeoutId\<close> is the pending timer of \<^verbatim>\<open>whenReady\<close> (its Promise and delay), \<open>sent\<close> what went
  to \<^verbatim>\<open>connection.send\<close>, \<open>promises\<close> the calls made on each Promise.
\<close>

record AuthManager =
  handlers :: "AuthStateHandler list"
  timeoutId :: "(nat \<times> int) option"
  currentState :: "AuthState option"
  promises :: "nat \<Rightarrow> settle list"
  sent :: "jsobject list"
  promiseCount :: nat

definition newAuthManager :: AuthManager where
  "newAuthManager =
     \<lparr>handlers = [], timeoutId = None, currentState = None, promises = (\<lambda>p. []), sent = [],
      promiseCount = 0\<rparr>"

definition settlePromise :: "nat \<Rightarrow> settle \<Rightarrow> AuthManager \<Rightarrow> AuthManager" where
  "settlePromise p c m = m\<lparr>promises := (promises m)(p := promises m p @ [c])\<rparr>"

fun sameHandler :: "AuthStateHandler \<Rightarrow> AuthStateHandler \<Rightarrow> bool" where
  "sameHandler (AuthHandler p) (AuthHandler q) = (p = q)"
| "sameHandler (WhenReadyHandler p) (WhenReadyHandler q) = (p = q)"
| "sameHandler (GivenHandler a) (GivenHandler b) = (lid a = lid b)"
| "sameHandler a b = False"

definition deleteHandler :: "AuthStateHandler \<Rightarrow> AuthManager \<Rightarrow> AuthManager" where
  "deleteHandler h m = m\<lparr>handlers := filter (\<lambda>x. \<not> sameHandler h x) (handlers m)\<rparr>"

text \<open>
  The closure \<^verbatim>\<open>handler\<close> of \<^verbatim>\<open>auth\<close>:
  \<^verbatim>\<open>resolve(); if (this.currentState !== undefined) { if (state === 'AUTHORIZED') resolve()
  else reject() } this.handlers.delete(handler)\<close>.
\<close>

definition authHandler :: "nat \<Rightarrow> AuthState \<Rightarrow> AuthManager \<Rightarrow> AuthManager" where
  "authHandler p state m =
     (let m1 = settlePromise p Resolve m;
          m2 = (case currentState m1 of
                  None \<Rightarrow> m1
                | Some known \<Rightarrow>
                    if state = AUTHORIZED then settlePromise p Resolve m1
                    else settlePromise p (Reject None) m1)
      in deleteHandler (AuthHandler p) m2)"

text \<open>The closure \<^verbatim>\<open>handler\<close> of \<^verbatim>\<open>whenReady\<close>.\<close>

definition whenReadyHandler :: "nat \<Rightarrow> AuthManager \<Rightarrow> AuthManager" where
  "whenReadyHandler p m =
     (let m1 = settlePromise p Resolve m;
          m2 = deleteHandler (WhenReadyHandler p) m1
      in m2\<lparr>timeoutId := None\<rparr>)"

fun callHandlers :: "AuthStateHandler list \<Rightarrow> AuthState \<Rightarrow> AuthManager \<Rightarrow> AuthManager completion" where
  "callHandlers [] state m = Done m"
| "callHandlers (AuthHandler p # hs) state m = callHandlers hs state (authHandler p state m)"
| "callHandlers (WhenReadyHandler p # hs) state m = callHandlers hs state (whenReadyHandler p m)"
| "callHandlers (GivenHandler l # hs) state m =
     (case behaviour l state of
        Some e \<Rightarrow> Raised e m
      | None \<Rightarrow> callHandlers hs state m)"

definition handleAuthState :: "AuthState \<Rightarrow> AuthManager \<Rightarrow> AuthManager completion" where
  "handleAuthState state m =
     andThen (callHandlers (handlers m) state m) (\<lambda>m1. Done (m1\<lparr>currentState := Some state\<rparr>))"

definition handleClose :: "AuthManager \<Rightarrow> AuthManager" where
  "handleClose m = m\<lparr>handlers := [], timeoutId := None\<rparr>"

definition addHandler :: "AuthStateHandler \<Rightarrow> AuthManager \<Rightarrow> AuthManager" where
  "addHandler h m =
     m\<lparr>handlers := (if list_ex (sameHandler h) (handlers m) then handlers m
                     else handlers m @ [h])\<rparr>"

definition removeHandler :: "AuthStateHandler \<Rightarrow> AuthManager \<Rightarrow> AuthManager" where
  "removeHandler h m = deleteHandler h m"

text \<open>\<^verbatim>\<open>whenReady\<close> and \<^verbatim>\<open>auth\<close> return a new Promise: its number is the second component.\<close>

definition whenReady :: "int \<Rightarrow> AuthManager \<Rightarrow> AuthManager \<times> nat" where
  "whenReady timeout m =
     (let p = promiseCount m;
          m1 = addHandler (WhenReadyHandler p) (m\<lparr>promiseCount := p + 1\<rparr>)
      in (m1\<lparr>timeoutId := Some (p, timeout)\<rparr>, p))"

text \<open>The timer closure of the \<^verbatim>\<open>whenReady\<close> call that returned Promise \<open>p\<close>.\<close>

definition whenReadyTimeout :: "nat \<Rightarrow> AuthManager \<Rightarrow> AuthManager" where
  "whenReadyTimeout p m =
     settlePromise p (Reject (Some ''Timeout waiting for server auth state message''))
       (m\<lparr>timeoutId := None\<rparr>)"

definition auth :: "string \<Rightarrow> AuthManager \<Rightarrow> AuthManager \<times> nat" where
  "auth token m =
     (let m1 = m\<lparr>sent := sent m @ [[(''type'', JSString ''AUTH''), (''channel'', JSNumber 0),
                                      (''token'', JSString token)]]\<rparr>;
          p = promiseCount m1
      in (addHandler (AuthHandler p) (m1\<lparr>promiseCount := p + 1\<rparr>), p))"

section \<open>Notions used in the statements\<close>

text \<open>A run of messages delivered by the transport, each with the clock's reading.\<close>

fun receive :: "(Message \<times> int) list \<Rightarrow> DXLinkWebSocket \<Rightarrow> DXLinkWebSocket" where
  "receive [] s = s"
| "receive ((m, now) # rest) s = receive rest (state_of (processMessage m now s))"

fun isAuthStateMessage :: "Message \<Rightarrow> bool" where
  "isAuthStateMessage (AuthStateMessage c st) = (c = 0)"
| "isAuthStateMessage m = False"

text \<open>The status of the channel object \<open>i\<close>, and the CHANNEL_REQUEST that names it.\<close>

definition statusOf :: "DXLinkWebSocket \<Rightarrow> nat \<Rightarrow> DXLinkChannelStatus option" where
  "statusOf s i = map_option status (heap s i)"

definition channelRequestOf :: "DXLinkWebSocket \<Rightarrow> nat \<Rightarrow> jsobject" where
  "channelRequestOf s i =
     (case heap s i of
        None \<Rightarrow> []
      | Some ch \<Rightarrow>
          [(''type'', JSString ''CHANNEL_REQUEST''), (''channel'', JSNumber (int i)),
           (''service'', JSString (service ch)), (''parameters'', JSObject (parameters ch))])"

text \<open>The channel table as the engine holds it: each id with the status of its channel.\<close>

definition channelTable :: "DXLinkWebSocket \<Rightarrow> (nat \<times> DXLinkChannelStatus option) list" where
  "channelTable s = map (\<lambda>i. (i, statusOf s i)) (channels s)"

text \<open>The messages of a trace that reached the connector, and its auth-state listener calls.\<close>

fun sentMessages :: "effect list \<Rightarrow> jsobject list" where
  "sentMessages [] = []"
| "sentMessages (ConnectorSendMessage m # fx) = m # sentMessages fx"
| "sentMessages (e # fx) = sentMessages fx"

fun authStateListenerCalls ::
  "effect list \<Rightarrow> (nat \<times> DXLinkAuthState \<times> DXLinkAuthState) list" where
  "authStateListenerCalls [] = []"
| "authStateListenerCalls (AuthStateListenerCalled i n p # fx) =
     (i, n, p) # authStateListenerCalls fx"
| "authStateListenerCalls (e # fx) = authStateListenerCalls fx"

text \<open>
  The table is a \<^verbatim>\<open>Map\<close> from ids to channel objects: its keys are distinct, and the object
  under a key has that id.
\<close>

definition tableOk :: "DXLinkWebSocket \<Rightarrow> bool" where
  "tableOk s =
     (distinct (channels s) \<and> (\<forall>i\<in>set (channels s). \<exists>ch. heap s i = Some ch \<and> cid ch = i))"

text \<open>
  Between two states: every pending TIMEOUT timer of the second is one of the first
  (\<open>keepsTimeout\<close>), or is one of the first or has the delay \<open>d\<close> (\<open>setsTimeout\<close>).
\<close>

definition keepsTimeout :: "DXLinkWebSocket \<Rightarrow> DXLinkWebSocket \<Rightarrow> bool" where
  "keepsTimeout s s' =
     (\<forall>t\<in>set (timeoutIds s').
        timer_key t = ''TIMEOUT'' \<and> \<not> timer_fired t \<longrightarrow> t \<in> set (timeoutIds s))"

definition setsTimeout :: "int \<Rightarrow> DXLinkWebSocket \<Rightarrow> DXLinkWebSocket \<Rightarrow> bool" where
  "setsTimeout d s s' =
     (\<forall>t\<in>set (timeoutIds s').
        timer_key t = ''TIMEOUT'' \<and> \<not> timer_fired t \<longrightarrow>
          t \<in> set (timeoutIds s) \<or> timer_delay t = d)"

text \<open>While the engine is NOT_CONNECTED its count of reconnect attempts is 0.\<close>

definition attemptsOk :: "DXLinkWebSocket \<Rightarrow> bool" where
  "attemptsOk s = (connectionState s = NOT_CONNECTED \<longrightarrow> reconnectAttempts s = 0)"

text \<open>
  What a history of events shows: the events since the transport last opened, whether a server
  SETUP is among them, whether a token was ever set, whether the server ever signalled
  AUTHORIZED.
\<close>

fun isTransportOpen :: "event \<Rightarrow> bool" where
  "isTransportOpen TransportOpen = True"
| "isTransportOpen ev = False"

fun isServerSetup :: "event \<Rightarrow> bool" where
  "isServerSetup (TransportMessage (SetupMessage c v k a)) = (c = 0)"
| "isServerSetup ev = False"

fun isSetAuthToken :: "event \<Rightarrow> bool" where
  "isSetAuthToken (SetAuthToken token) = True"
| "isSetAuthToken ev = False"

fun isAuthorizedSignal :: "event \<Rightarrow> bool" where
  "isAuthorizedSignal (TransportMessage (AuthStateMessage c st)) = (c = 0 \<and> st = AUTHORIZED)"
| "isAuthorizedSignal ev = False"

definition sessionEvents :: "(event \<times> int) list \<Rightarrow> (event \<times> int) list" where
  "sessionEvents evs = rev (takeWhile (\<lambda>(ev, t). \<not> isTransportOpen ev) (rev evs))"

definition setupObserved :: "(event \<times> int) list \<Rightarrow> bool" where
  "setupObserved evs = list_ex (\<lambda>(ev, t). isServerSetup ev) (sessionEvents evs)"

definition authTokenEverSet :: "(event \<times> int) list \<Rightarrow> bool" where
  "authTokenEverSet evs = list_ex (\<lambda>(ev, t). isSetAuthToken ev) evs"

definition authorizedSignalled :: "(event \<times> int) list \<Rightarrow> bool" where
  "authorizedSignalled evs = list_ex (\<lambda>(ev, t). isAuthorizedSignal ev) evs"

section \<open>Example inputs\<close>

definition engine0 :: DXLinkWebSocket where
  "engine0 = newDXLinkWebSocket defaultConfig"

text \<open>A transport that has just opened, with and without a token.\<close>

definition opened :: "(event \<times> int) list" where
  "opened = [(Connect ''wss://x'', 0), (TransportOpen, 10)]"

definition openedWithToken :: "(event \<times> int) list" where
  "openedWithToken = (SetAuthToken ''T'', 0) # opened"

text \<open>The server signals AUTHORIZED before any SETUP.\<close>

definition authorizedBeforeSetup :: "(event \<times> int) list" where
  "authorizedBeforeSetup = opened @ [(TransportMessage (AuthStateMessage 0 AUTHORIZED), 20)]"

text \<open>
  A token is set and never accepted: the transport closes while the auth state is
  UNAUTHORIZED, and the next connection needs no token.
\<close>

definition connectedAfterRejectedToken :: "(event \<times> int) list" where
  "connectedAfterRejectedToken =
     openedWithToken @
     [(TransportMessage (SetupMessage 0 ''1.0'' (Some 60) None), 20),
      (TransportMessage (AuthStateMessage 0 UNAUTHORIZED), 30),
      (TransportClose, 40),
      (Connect ''wss://x'', 50),
      (TransportOpen, 60),
      (TransportMessage (SetupMessage 0 ''1.0'' (Some 60) None), 70)]"

text \<open>A server SETUP whose keepaliveTimeout is 0 seconds.\<close>

definition zeroKeepaliveSetup :: "(event \<times> int) list" where
  "zeroKeepaliveSetup = opened @ [(TransportMessage (SetupMessage 0 ''1.0'' (Some 0) None), 20)]"

text \<open>Listeners: one that always throws, one that never does, one that throws on leaving CONNECTED.\<close>

definition failing :: "'a listener" where
  "failing = Listener 1 (\<lambda>a. Some ''listener failed'')"

definition quietListener :: "'a listener" where
  "quietListener = Listener 2 (\<lambda>a. None)"

definition failAfterConnected :: "(DXLinkConnectionState \<times> DXLinkConnectionState) listener" where
  "failAfterConnected =
     Listener 1 (\<lambda>(n, p). if p = CONNECTED then Some ''listener failed'' else None)"

definition connectedWithListener :: "(event \<times> int) list" where
  "connectedWithListener =
     (AddConnectionStateChangeListener failAfterConnected, 0) # opened @
     [(TransportMessage (SetupMessage 0 ''1.0'' (Some 45) None), 20)]"

text \<open>An opened channel, and the same channel after \<^verbatim>\<open>close()\<close>.\<close>

definition feed :: Channel where
  "feed = (newChannel 1 ''FEED'' [(''contract'', JSString ''AUTO'')])\<lparr>status := OPENED\<rparr>"

definition closedFeed :: Channel where
  "closedFeed = fst (state_of (close feed))"

text \<open>Channels 1 and 3 are opened and channel 5 was closed by its owner.\<close>

definition twoOpenedOneClosed :: "(event \<times> int) list" where
  "twoOpenedOneClosed =
     [(OpenChannel ''FEED'' [(''contract'', JSString ''AUTO'')], 0),
      (OpenChannel ''DOM'' [], 0),
      (OpenChannel ''CANDLES'' [], 0)] @ opened @
     [(TransportMessage (SetupMessage 0 ''1.0'' (Some 60) None), 20),
      (TransportMessage (AuthStateMessage 0 AUTHORIZED), 30),
      (TransportMessage (ChannelOpenedMessage 1 ''FEED'' [(''contract'', JSString ''AUTO'')]), 40),
      (TransportMessage (ChannelOpenedMessage 3 ''DOM'' []), 41),
      (TransportMessage (ChannelOpenedMessage 5 ''CANDLES'' []), 42),
      (ChannelClose 5, 50)]"

text \<open>
  A session with a token: channels 1, 3 and 5 are opened and channel 5 is closed by its owner;
  a connection-state listener that throws on CONNECTED is added; the transport closes, the
  RECONNECT timer fires, the transport opens again and the server's SETUP arrives.
\<close>

definition failOnConnected :: "(DXLinkConnectionState \<times> DXLinkConnectionState) listener" where
  "failOnConnected =
     Listener 1 (\<lambda>(n, p). if n = CONNECTED then Some ''listener failed'' else None)"

definition reconnectedWithListener :: "(event \<times> int) list" where
  "reconnectedWithListener =
     openedWithToken @
     [(TransportMessage (SetupMessage 0 ''1.0'' (Some 60) None), 20),
      (TransportMessage (AuthStateMessage 0 AUTHORIZED), 30),
      (OpenChannel ''FEED'' [(''contract'', JSString ''AUTO'')], 31),
      (OpenChannel ''DOM'' [], 32),
      (OpenChannel ''CANDLES'' [], 33),
      (TransportMessage (ChannelOpenedMessage 1 ''FEED'' [(''contract'', JSString ''AUTO'')]), 40),
      (TransportMessage (ChannelOpenedMessage 3 ''DOM'' []), 41),
      (TransportMessage (ChannelOpenedMessage 5 ''CANDLES'' []), 42),
      (ChannelClose 5, 50),
      (AddConnectionStateChangeListener failOnConnected, 60),
      (TransportClose, 70),
      (TimerFired ''RECONNECT'', 1070),
      (TransportOpen, 1080),
      (TransportMessage (SetupMessage 0 ''1.0'' (Some 60) None), 1090)]"

text \<open>An \<^verbatim>\<open>AuthManager\<close> after \<^verbatim>\<open>auth('T')\<close>, before and after a first auth state is known.\<close>

definition authRequested :: AuthManager where
  "authRequested = fst (auth ''T'' newAuthManager)"

definition authRequestedAgain :: "AuthState \<Rightarrow> AuthManager" where
  "authRequestedAgain known = authRequested\<lparr>currentState := Some known\<rparr>"

section \<open>Properties\<close>

subsection \<open>Unfolding the definitions on a concrete input\<close>

lemmas channel_defs =
  newChannel_def send_def clear_def setStatus_def channelError_def close_def
  processPayloadMessage_def processStatusOpened_def processStatusRequested_def
  processStatusClosed_def processError_def getProp_def spread_def quiet_def
  addMessageListener_def removeMessageListener_def addStatusListener_def
  removeStatusListener_def channelAddErrorListener_def channelRemoveErrorListener_def

lemmas engine_defs =
  newDXLinkWebSocket_def defaultConfig_def DEFAULT_CONNECTION_DETAILS_def
  DXLINK_WS_PROTOCOL_VERSION_def emit_def cancelSchedule_def schedule_def cancelAllSchedules_def
  scheduleKeepalive_def sendMessage_def addConnectionStateChangeListener_def
  removeConnectionStateChangeListener_def addAuthStateChangeListener_def
  removeAuthStateChangeListener_def addErrorListener_def removeErrorListener_def
  setConnectionState_def setAuthState_def publishError_def sendAuthMessage_def disconnect_def
  reconnect_def connect_def setAuthToken_def requestChannel_def openChannel_def
  requestActiveChannels_def processSetupMessage_def processAuthStateMessage_def
  updateChannel_def processMessage_def processTransportOpen_def processTransportClose_def
  timeoutCheck_def actionTimeoutExpired_def fireTimer_def onChannel_def isConnectionMessage_def
  isChannelMessage_def isChannelLifecycleMessage_def addListener_def deleteListener_def

lemmas example_defs =
  engine0_def opened_def openedWithToken_def authorizedBeforeSetup_def
  connectedAfterRejectedToken_def zeroKeepaliveSetup_def failing_def quietListener_def
  failAfterConnected_def connectedWithListener_def feed_def twoOpenedOneClosed_def
  failOnConnected_def reconnectedWithListener_def

subsection \<open>Channel: send and close\<close>

lemma send_not_opened:
  "status ch \<noteq> OPENED \<Longrightarrow> send msg ch = Raised ''Channel is not ready'' (ch, [])"
  by (simp add: send_def)

lemma send_opened:
  "status ch = OPENED \<Longrightarrow>
   send msg ch =
     Done (ch, [SendMessage
                 (spread [(''type'', getProp msg ''type''), (''channel'', JSNumber (int (cid ch)))]
                    (AList.delete ''type'' msg))])"
  by (simp add: send_def)

lemma map_of_spread:
  "map_of (spread target src) k =
     (case map_of (rev src) k of None \<Rightarrow> map_of target k | Some v \<Rightarrow> Some v)"
proof (induction src arbitrary: target)
  case Nil
  show ?case by (simp add: spread_def)
next
  case (Cons kv src)
  obtain a b where kv: "kv = (a, b)" by (cases kv)
  have "spread target (kv # src) = spread (AList.update a b target) src"
    by (simp add: spread_def kv)
  then show ?case
    by (simp add: Cons.IH kv update_conv' map_add_def split: option.split)
qed

text \<open>
  A message without a \<^verbatim>\<open>channel\<close> property of its own goes out with the channel's id and its
  own type.
\<close>

lemma send_sets_channel:
  assumes "status ch = OPENED" and "''channel'' \<notin> fst ` set msg"
  shows "\<exists>obj. send msg ch = Done (ch, [SendMessage obj]) \<and>
           getProp obj ''channel'' = JSNumber (int (cid ch)) \<and>
           getProp obj ''type'' = getProp msg ''type''"
proof -
  let ?payload = "AList.delete ''type'' msg"
  let ?obj = "spread [(''type'', getProp msg ''type''), (''channel'', JSNumber (int (cid ch)))] ?payload"
  have c: "map_of (rev ?payload) ''channel'' = None"
    using assms(2) by (simp add: map_of_eq_None_iff AList.delete_eq image_iff)
  have t: "map_of (rev ?payload) ''type'' = None"
    by (simp add: map_of_eq_None_iff AList.delete_eq image_iff)
  have "getProp ?obj ''channel'' = JSNumber (int (cid ch))"
    by (simp add: getProp_def map_of_spread c)
  moreover have "getProp ?obj ''type'' = getProp msg ''type''"
    by (simp add: getProp_def map_of_spread t)
  ultimately show ?thesis using assms(1) by (simp add: send_opened)
qed

text \<open>
  C6. \<^verbatim>\<open>channel.send(msg)\<close> throws when the status is not OPENED, and when it is OPENED the
  message goes out with the channel's id (lemmas \<open>send_not_opened\<close>, \<open>send_sets_channel\<close>)
  unless the message has a \<^verbatim>\<open>channel\<close> property of its own: in
  \<^verbatim>\<open>{ type, channel: this.id, ...payload }\<close> the spread comes last and wins. The opened channel 1
  sends \<^verbatim>\<open>{ type: 'FEED_SUBSCRIPTION', channel: 3 }\<close> on channel 3.
\<close>

theorem send_payload_overrides_channel:
  "cid feed = 1 \<and> status feed = OPENED \<and>
   send [(''type'', JSString ''FEED_SUBSCRIPTION''), (''channel'', JSNumber 3)] feed =
     Done (feed, [SendMessage [(''type'', JSString ''FEED_SUBSCRIPTION''),
                               (''channel'', JSNumber 3)]])"
  by (simp add: feed_def channel_defs AList.delete_eq)

text \<open>
  C3 (as the code has it). On a channel whose status is CLOSED, \<^verbatim>\<open>close()\<close> throws
  'Channel is not ready' from its \<^verbatim>\<open>send\<close>; it sends nothing and leaves the channel as it was.
\<close>

theorem close_on_closed_channel_throws:
  "status ch = CLOSED \<Longrightarrow> close ch = Raised ''Channel is not ready'' (ch, [])"
  by (simp add: close_def send_def)

text \<open>The channel 1 after its first \<^verbatim>\<open>close()\<close> is such a channel.\<close>

theorem close_on_closed_channel_throws_witness:
  "status closedFeed = CLOSED \<and> close closedFeed = Raised ''Channel is not ready'' (closedFeed, [])"
proof -
  have h: "status closedFeed = CLOSED"
    by (simp add: closedFeed_def feed_def channel_defs Let_def)
  show ?thesis using h close_on_closed_channel_throws [OF h] by simp
qed

text \<open>
  C3 as stated fails: the first \<^verbatim>\<open>close()\<close> of the opened channel 1 sends CHANNEL_CANCEL and
  leaves the status CLOSED, and the second one throws.
\<close>

theorem second_close_throws_counterexample:
  "close feed =
     Done (closedFeed, [SendMessage [(''type'', JSString ''CHANNEL_CANCEL''), (''channel'', JSNumber 1)]]) \<and>
   status closedFeed = CLOSED \<and>
   raised (close closedFeed) = Some ''Channel is not ready''"
  by (simp add: closedFeed_def feed_def channel_defs Let_def)

subsection \<open>Listener loops\<close>

lemma forEachTryCatch_calls_all:
  assumes "\<And>i e. call i \<noteq> log e"
  shows "filter (\<lambda>x. x \<in> range call) (forEachTryCatch call log ls a) =
           map (\<lambda>l. call (lid l)) ls"
proof -
  have "log e \<notin> range call" for e using assms [symmetric] by (metis rangeE)
  then show ?thesis by (induction ls) (simp_all split: option.split)
qed

lemma forEachTryCatch_logs_all:
  assumes "\<And>i e. call i \<noteq> log e"
  shows "filter (\<lambda>x. x \<in> range log) (forEachTryCatch call log ls a) =
           map log (List.map_filter (\<lambda>l. behaviour l a) ls)"
proof -
  have "call i \<notin> range log" for i using assms by auto
  then show ?thesis by (induction ls) (simp_all split: option.split)
qed

lemma forEach_stops:
  "behaviour l a = Some e \<Longrightarrow> forEach call (l # ls) a = Raised e [call (lid l)]"
  by simp

text \<open>
  The loops with a try/catch call every listener (\<open>isolated_fan_outs\<close>) and log every
  exception (\<open>isolated_fan_outs_log\<close>): the status and error listeners of a channel, and the
  auth-state and error listeners of the engine.
\<close>

lemma isolated_fan_outs:
  "filter (\<lambda>x. x \<in> range (\<lambda>i. ChannelStatusListenerCalled (cid ch) i n (status ch)))
      (snd (setStatus n ch)) =
     (if status ch = n then []
      else map (\<lambda>l. ChannelStatusListenerCalled (cid ch) (lid l) n (status ch)) (statusListeners ch))"
  "channelErrorListeners ch \<noteq> [] \<Longrightarrow>
   filter (\<lambda>x. x \<in> range (\<lambda>i. ChannelErrorListenerCalled (cid ch) i err))
      (snd (processError err ch)) =
     map (\<lambda>l. ChannelErrorListenerCalled (cid ch) (lid l) err) (channelErrorListeners ch)"
  "trace (setAuthState a s) = trace s @ fx \<Longrightarrow>
   filter (\<lambda>x. x \<in> range (\<lambda>i. AuthStateListenerCalled i a (authState s))) fx =
     map (\<lambda>l. AuthStateListenerCalled (lid l) a (authState s)) (authStateChangeListeners s)"
  "errorListeners s \<noteq> [] \<Longrightarrow> trace (publishError err s) = trace s @ fx \<Longrightarrow>
   filter (\<lambda>x. x \<in> range (\<lambda>i. ErrorListenerCalled i err)) fx =
     map (\<lambda>l. ErrorListenerCalled (lid l) err) (errorListeners s)"
  by (auto simp add: setStatus_def processError_def setAuthState_def publishError_def emit_def Let_def
        forEachTryCatch_calls_all)

lemma isolated_fan_outs_log:
  "status ch \<noteq> n \<Longrightarrow>
   filter (\<lambda>x. x \<in> range (\<lambda>e. ConsoleError ''Error in channel status listener'' (cid ch)
                                 (LoggedException e)))
      (snd (setStatus n ch)) =
     map (\<lambda>e. ConsoleError ''Error in channel status listener'' (cid ch) (LoggedException e))
       (List.map_filter (\<lambda>l. behaviour l (n, status ch)) (statusListeners ch))"
  "channelErrorListeners ch \<noteq> [] \<Longrightarrow>
   filter (\<lambda>x. x \<in> range (\<lambda>e. ConsoleError ''Error in channel error listener'' (cid ch)
                                 (LoggedException e)))
      (snd (processError err ch)) =
     map (\<lambda>e. ConsoleError ''Error in channel error listener'' (cid ch) (LoggedException e))
       (List.map_filter (\<lambda>l. behaviour l err) (channelErrorListeners ch))"
  "trace (setAuthState a s) = trace s @ fx \<Longrightarrow>
   filter (\<lambda>x. x \<in> range (\<lambda>e. LoggerError ''Auth state listener error'' (LoggedException e))) fx =
     map (\<lambda>e. LoggerError ''Auth state listener error'' (LoggedException e))
       (List.map_filter (\<lambda>l. behaviour l (a, authState s)) (authStateChangeListeners s))"
  "errorListeners s \<noteq> [] \<Longrightarrow> trace (publishError err s) = trace s @ fx \<Longrightarrow>
   filter (\<lambda>x. x \<in> range (\<lambda>e. LoggerError ''Error listener error'' (LoggedException e))) fx =
     map (\<lambda>e. LoggerError ''Error listener error'' (LoggedException e))
       (List.map_filter (\<lambda>l. behaviour l err) (errorListeners s))"
  by (auto simp add: setStatus_def processError_def setAuthState_def publishError_def emit_def Let_def
        forEachTryCatch_logs_all)

text \<open>
  C4. A listener that throws must not end the iteration. The loops of
  \<^verbatim>\<open>Channel.processPayloadMessage\<close> and of \<^verbatim>\<open>setConnectionState\<close> have no try/catch, unlike
  their four siblings: with a first listener that throws and a second that does not, the
  exception leaves the call after the first listener, the second is never called and nothing
  is logged.
\<close>

theorem listener_exception_aborts_fan_out:
  "processPayloadMessage (ChannelPayloadMessage ''FEED_DATA'' 1 [])
     (feed\<lparr>messageListeners := [failing, quietListener]\<rparr>) =
     Raised ''listener failed''
       (feed\<lparr>messageListeners := [failing, quietListener]\<rparr>,
        [ChannelMessageListenerCalled 1 1 (ChannelPayloadMessage ''FEED_DATA'' 1 [])]) \<and>
   setConnectionState CONNECTING
     (engine0\<lparr>connectionStateChangeListeners :=
                [UserListener failing, UserListener quietListener]\<rparr>) =
     Raised ''listener failed''
       (engine0\<lparr>connectionStateChangeListeners :=
                  [UserListener failing, UserListener quietListener],
                connectionState := CONNECTING,
                trace := [ConnectionStateListenerCalled 1 CONNECTING NOT_CONNECTED]\<rparr>)"
  by (simp add: processPayloadMessage_def feed_def newChannel_def failing_def quietListener_def
        setConnectionState_def engine0_def newDXLinkWebSocket_def emit_def Let_def)

subsection \<open>What each operation of the engine leaves alone\<close>

lemma emit_fields [simp]:
  "connectionState (emit fx s) = connectionState s"
  "lastSettedAuthToken (emit fx s) = lastSettedAuthToken s"
  "isFirstAuthState (emit fx s) = isFirstAuthState s"
  "reconnectAttempts (emit fx s) = reconnectAttempts s"
  "timeoutIds (emit fx s) = timeoutIds s"
  "channels (emit fx s) = channels s"
  "heap (emit fx s) = heap s"
  "connector (emit fx s) = connector s"
  "config (emit fx s) = config s"
  "authState (emit fx s) = authState s"
  "lastReceivedMillis (emit fx s) = lastReceivedMillis s"
  "lastSentMillis (emit fx s) = lastSentMillis s"
  "connectionStateChangeListeners (emit fx s) = connectionStateChangeListeners s"
  "authStateChangeListeners (emit fx s) = authStateChangeListeners s"
  "errorListeners (emit fx s) = errorListeners s"
  "trace (emit fx s) = trace s @ fx"
  by (simp_all add: emit_def)

lemma fold_cancelSchedule:
  "fold cancelSchedule ks s = s\<lparr>timeoutIds := filter (\<lambda>t. timer_key t \<notin> set ks) (timeoutIds s)\<rparr>"
proof (induction ks arbitrary: s)
  case Nil
  show ?case by simp
next
  case (Cons k ks)
  have "fold cancelSchedule (k # ks) s = fold cancelSchedule ks (cancelSchedule k s)" by simp
  also have "\<dots> = (cancelSchedule k s)\<lparr>timeoutIds :=
      filter (\<lambda>t. timer_key t \<notin> set ks) (timeoutIds (cancelSchedule k s))\<rparr>" by (rule Cons.IH)
  also have "\<dots> = s\<lparr>timeoutIds := filter (\<lambda>t. timer_key t \<notin> set (k # ks)) (timeoutIds s)\<rparr>"
    by (simp add: cancelSchedule_def conj_commute)
  finally show ?case .
qed

lemma cancelAllSchedules_eq: "cancelAllSchedules s = s\<lparr>timeoutIds := []\<rparr>"
  by (simp add: cancelAllSchedules_def fold_cancelSchedule)

lemma sendMessage_fields [simp]:
  "connectionState (sendMessage m now s) = connectionState s"
  "lastSettedAuthToken (sendMessage m now s) = lastSettedAuthToken s"
  "isFirstAuthState (sendMessage m now s) = isFirstAuthState s"
  "reconnectAttempts (sendMessage m now s) = reconnectAttempts s"
  "channels (sendMessage m now s) = channels s"
  "heap (sendMessage m now s) = heap s"
  "connector (sendMessage m now s) = connector s"
  "config (sendMessage m now s) = config s"
  "authState (sendMessage m now s) = authState s"
  "lastReceivedMillis (sendMessage m now s) = lastReceivedMillis s"
  "lastSentMillis (sendMessage m now s) = now"
  by (simp_all add: sendMessage_def scheduleKeepalive_def schedule_def cancelSchedule_def Let_def split: option.split)

lemma callConnectionStateListeners_fields [simp]:
  "connectionState (state_of (callConnectionStateListeners ls n p s)) = connectionState s"
  "lastSettedAuthToken (state_of (callConnectionStateListeners ls n p s)) = lastSettedAuthToken s"
  "isFirstAuthState (state_of (callConnectionStateListeners ls n p s)) = isFirstAuthState s"
  "reconnectAttempts (state_of (callConnectionStateListeners ls n p s)) = reconnectAttempts s"
  "timeoutIds (state_of (callConnectionStateListeners ls n p s)) = timeoutIds s"
  "channels (state_of (callConnectionStateListeners ls n p s)) = channels s"
  "heap (state_of (callConnectionStateListeners ls n p s)) = heap s"
  "connector (state_of (callConnectionStateListeners ls n p s)) = connector s"
  "config (state_of (callConnectionStateListeners ls n p s)) = config s"
  "authState (state_of (callConnectionStateListeners ls n p s)) = authState s"
  by (induction ls n p s rule: callConnectionStateListeners.induct;
      simp add: Let_def removeConnectionStateChangeListener_def split: option.split)+

lemma setConnectionState_fields [simp]:
  "connectionState (state_of (setConnectionState n s)) = n"
  "lastSettedAuthToken (state_of (setConnectionState n s)) = lastSettedAuthToken s"
  "isFirstAuthState (state_of (setConnectionState n s)) = isFirstAuthState s"
  "reconnectAttempts (state_of (setConnectionState n s)) = reconnectAttempts s"
  "timeoutIds (state_of (setConnectionState n s)) = timeoutIds s"
  "channels (state_of (setConnectionState n s)) = channels s"
  "heap (state_of (setConnectionState n s)) = heap s"
  "connector (state_of (setConnectionState n s)) = connector s"
  "config (state_of (setConnectionState n s)) = config s"
  "authState (state_of (setConnectionState n s)) = authState s"
  by (simp_all add: setConnectionState_def Let_def)

lemma state_of_andThen:
  "state_of (andThen r f) = (if raised r = None then state_of (f (state_of r)) else state_of r)"
  by (cases r) simp_all

lemma raised_andThen:
  "raised (andThen r f) = (if raised r = None then raised (f (state_of r)) else raised r)"
  by (cases r) simp_all

lemma setAuthState_fields [simp]:
  "connectionState (setAuthState n s) = connectionState s"
  "lastSettedAuthToken (setAuthState n s) = lastSettedAuthToken s"
  "isFirstAuthState (setAuthState n s) = isFirstAuthState s"
  "reconnectAttempts (setAuthState n s) = reconnectAttempts s"
  "timeoutIds (setAuthState n s) = timeoutIds s"
  "channels (setAuthState n s) = channels s"
  "heap (setAuthState n s) = heap s"
  "connector (setAuthState n s) = connector s"
  "config (setAuthState n s) = config s"
  "authState (setAuthState n s) = n"
  by (simp_all add: setAuthState_def Let_def)

lemma publishError_fields [simp]:
  "connectionState (publishError e s) = connectionState s"
  "lastSettedAuthToken (publishError e s) = lastSettedAuthToken s"
  "isFirstAuthState (publishError e s) = isFirstAuthState s"
  "reconnectAttempts (publishError e s) = reconnectAttempts s"
  "timeoutIds (publishError e s) = timeoutIds s"
  "channels (publishError e s) = channels s"
  "heap (publishError e s) = heap s"
  "connector (publishError e s) = connector s"
  "config (publishError e s) = config s"
  "authState (publishError e s) = authState s"
  by (simp_all add: publishError_def)

lemma schedule_fields [simp]:
  "connectionState (schedule k c t s) = connectionState s"
  "lastSettedAuthToken (schedule k c t s) = lastSettedAuthToken s"
  "isFirstAuthState (schedule k c t s) = isFirstAuthState s"
  "reconnectAttempts (schedule k c t s) = reconnectAttempts s"
  "channels (schedule k c t s) = channels s"
  "heap (schedule k c t s) = heap s"
  "connector (schedule k c t s) = connector s"
  "config (schedule k c t s) = config s"
  "authState (schedule k c t s) = authState s"
  "trace (schedule k c t s) = trace s"
  by (simp_all add: schedule_def cancelSchedule_def Let_def)

lemma cancelSchedule_fields [simp]:
  "connectionState (cancelSchedule k s) = connectionState s"
  "lastSettedAuthToken (cancelSchedule k s) = lastSettedAuthToken s"
  "isFirstAuthState (cancelSchedule k s) = isFirstAuthState s"
  "reconnectAttempts (cancelSchedule k s) = reconnectAttempts s"
  "channels (cancelSchedule k s) = channels s"
  "heap (cancelSchedule k s) = heap s"
  "connector (cancelSchedule k s) = connector s"
  "config (cancelSchedule k s) = config s"
  "authState (cancelSchedule k s) = authState s"
  "trace (cancelSchedule k s) = trace s"
  by (simp_all add: cancelSchedule_def)

lemma requestChannel_fields [simp]:
  "connectionState (requestChannel i now s) = connectionState s"
  "lastSettedAuthToken (requestChannel i now s) = lastSettedAuthToken s"
  "isFirstAuthState (requestChannel i now s) = isFirstAuthState s"
  "reconnectAttempts (requestChannel i now s) = reconnectAttempts s"
  "channels (requestChannel i now s) = channels s"
  "connector (requestChannel i now s) = connector s"
  "config (requestChannel i now s) = config s"
  "authState (requestChannel i now s) = authState s"
  by (simp_all add: requestChannel_def Let_def split: option.split prod.split)

lemma requestActiveChannelsLoop_fields [simp]:
  "connectionState (requestActiveChannelsLoop is now s) = connectionState s"
  "lastSettedAuthToken (requestActiveChannelsLoop is now s) = lastSettedAuthToken s"
  "isFirstAuthState (requestActiveChannelsLoop is now s) = isFirstAuthState s"
  "reconnectAttempts (requestActiveChannelsLoop is now s) = reconnectAttempts s"
  "connector (requestActiveChannelsLoop is now s) = connector s"
  "config (requestActiveChannelsLoop is now s) = config s"
  "authState (requestActiveChannelsLoop is now s) = authState s"
  by (induction "is" now s rule: requestActiveChannelsLoop.induct; simp split: option.split)+

lemma perform_fields [simp]:
  "connectionState (perform fx now s) = connectionState s"
  "lastSettedAuthToken (perform fx now s) = lastSettedAuthToken s"
  "isFirstAuthState (perform fx now s) = isFirstAuthState s"
  "reconnectAttempts (perform fx now s) = reconnectAttempts s"
  "channels (perform fx now s) = channels s"
  "heap (perform fx now s) = heap s"
  "connector (perform fx now s) = connector s"
  "config (perform fx now s) = config s"
  "authState (perform fx now s) = authState s"
  by (induction fx now s rule: perform.induct; simp)+

lemma updateChannel_fields [simp]:
  "connectionState (updateChannel i r s) = connectionState s"
  "lastSettedAuthToken (updateChannel i r s) = lastSettedAuthToken s"
  "isFirstAuthState (updateChannel i r s) = isFirstAuthState s"
  "reconnectAttempts (updateChannel i r s) = reconnectAttempts s"
  "timeoutIds (updateChannel i r s) = timeoutIds s"
  "channels (updateChannel i r s) = channels s"
  "connector (updateChannel i r s) = connector s"
  "config (updateChannel i r s) = config s"
  "authState (updateChannel i r s) = authState s"
  by (simp_all add: updateChannel_def)

lemma disconnect_connectionState: "connectionState (state_of (disconnect s)) = NOT_CONNECTED"
  by (simp add: disconnect_def Let_def state_of_andThen cancelAllSchedules_eq)

lemma reconnect_connectionState:
  "connectionState (state_of (reconnect s)) =
     (if connectionState s = NOT_CONNECTED \<or> connector s = None then connectionState s else CONNECTING)"
  by (simp add: reconnect_def Let_def state_of_andThen cancelAllSchedules_eq)

lemma connect_connectionState:
  "connectionState (state_of (connect url s)) \<noteq> CONNECTED \<or> connectionState s = CONNECTED"
  by (simp add: connect_def Let_def state_of_andThen disconnect_connectionState
        addConnectionStateChangeListener_def)

lemma processSetupMessage_connectionState:
  "connectionState (state_of (processSetupMessage v k s)) = CONNECTED \<Longrightarrow>
   connectionState s = CONNECTED \<or> (connectionState s = CONNECTING \<and> lastSettedAuthToken s = None)"
  by (auto simp add: processSetupMessage_def Let_def state_of_andThen split: if_splits)

lemma processAuthStateMessage_connectionState:
  "connectionState (state_of (processAuthStateMessage st now s)) = CONNECTED \<Longrightarrow>
   connectionState s = CONNECTED \<or> st = AUTHORIZED"
  by (auto simp add: processAuthStateMessage_def Let_def state_of_andThen requestActiveChannels_def split: if_splits)

lemma processMessage_connectionState:
  "connectionState (state_of (processMessage m now s)) = CONNECTED \<Longrightarrow>
   connectionState s = CONNECTED \<or>
   (\<exists>v k a. m = SetupMessage 0 v k a \<and> connectionState s = CONNECTING \<and> lastSettedAuthToken s = None) \<or>
   m = AuthStateMessage 0 AUTHORIZED"
  by (cases m)
     (auto simp add: processMessage_def Let_def isConnectionMessage_def isChannelMessage_def
        processPayloadMessage_def
        dest!: processSetupMessage_connectionState processAuthStateMessage_connectionState
        split: if_splits option.splits completion.splits)

lemma processTransportOpen_connectionState [simp]:
  "connectionState (processTransportOpen now s) = connectionState s"
  by (simp add: processTransportOpen_def Let_def sendAuthMessage_def split: option.split)

lemma setAuthToken_connectionState [simp]:
  "connectionState (setAuthToken t now s) = connectionState s"
  by (simp add: setAuthToken_def Let_def sendAuthMessage_def)

lemma openChannel_connectionState [simp]:
  "connectionState (openChannel sv ps now s) = connectionState s"
  by (simp add: openChannel_def Let_def)

lemma onChannel_connectionState [simp]:
  "connectionState (state_of (onChannel i f now s)) = connectionState s"
  by (simp add: onChannel_def split: option.split completion.split prod.split)

lemma processTransportClose_connectionState:
  "connectionState (state_of (processTransportClose s)) = CONNECTED \<Longrightarrow> connectionState s = CONNECTED"
  by (auto simp add: processTransportClose_def disconnect_connectionState reconnect_connectionState
       split: if_splits)

lemma runCallback_connectionState:
  "connectionState (state_of (runCallback cb now s)) = CONNECTED \<Longrightarrow> connectionState s = CONNECTED"
  by (cases cb)
     (auto simp add: actionTimeoutExpired_def Let_def disconnect_connectionState timeoutCheck_def
        reconnect_connectionState scheduleKeepalive_def split: if_splits option.splits)

lemma fireTimer_connectionState:
  "connectionState (state_of (fireTimer key now s)) = CONNECTED \<Longrightarrow> connectionState s = CONNECTED"
  by (auto simp add: fireTimer_def dest!: runCallback_connectionState split: option.splits)

text \<open>
  C1 (as the code has it). In every state of the engine and for every event, the connection
  state becomes CONNECTED only while a server SETUP message is processed with the connection
  state CONNECTING and no auth token remembered at that moment, or while a server AUTH_STATE
  message with state AUTHORIZED is processed; the latter does not ask whether a SETUP was seen.
\<close>

theorem connected_only_by_setup_or_authorized:
  assumes "connectionState s \<noteq> CONNECTED"
    and "connectionState (state_of (step ev now s)) = CONNECTED"
  shows "(\<exists>v k a. ev = TransportMessage (SetupMessage 0 v k a) \<and> connectionState s = CONNECTING \<and>
            lastSettedAuthToken s = None) \<or>
         ev = TransportMessage (AuthStateMessage 0 AUTHORIZED)"
proof (cases ev)
  case (Connect url)
  with assms connect_connectionState [of url s] show ?thesis by simp
next
  case Reconnect
  with assms show ?thesis by (simp add: reconnect_connectionState split: if_splits)
next
  case Disconnect
  with assms show ?thesis by (simp add: disconnect_connectionState)
next
  case (TransportMessage m)
  with assms processMessage_connectionState [of m now s] show ?thesis by auto
next
  case TransportClose
  with assms processTransportClose_connectionState [of s] show ?thesis by simp
next
  case (TimerFired key)
  with assms fireTimer_connectionState [of key now s] show ?thesis by simp
qed (use assms in \<open>simp_all add: addConnectionStateChangeListener_def
      removeConnectionStateChangeListener_def addAuthStateChangeListener_def
      removeAuthStateChangeListener_def addErrorListener_def removeErrorListener_def\<close>)

text \<open>Scenario 1: the server's SETUP arrives on the opened transport and no token was set.\<close>

theorem connected_only_by_setup_or_authorized_witness:
  "connectionState (run opened engine0) \<noteq> CONNECTED \<and>
   connectionState
     (state_of (step (TransportMessage (SetupMessage 0 ''1.0'' (Some 45) None)) 20
        (run opened engine0))) = CONNECTED \<and>
   connectionState (run opened engine0) = CONNECTING \<and>
   lastSettedAuthToken (run opened engine0) = None"
  using connected_only_by_setup_or_authorized
    [of "run opened engine0" "TransportMessage (SetupMessage 0 ''1.0'' (Some 45) None)" 20]
  by (simp add: example_defs engine_defs Let_def)

text \<open>
  C1 as stated fails twice. An AUTH_STATE AUTHORIZED that arrives before any SETUP makes the
  engine CONNECTED; and an engine whose token was set, never accepted and then forgotten becomes
  CONNECTED on the next SETUP although the server never signalled AUTHORIZED.
\<close>

theorem connected_without_setup_counterexample:
  "connectionState (run (butlast authorizedBeforeSetup) engine0) = CONNECTING \<and>
   connectionState (run authorizedBeforeSetup engine0) = CONNECTED \<and>
   \<not> setupObserved authorizedBeforeSetup \<and>
   connectionState (run (butlast connectedAfterRejectedToken) engine0) = CONNECTING \<and>
   connectionState (run connectedAfterRejectedToken engine0) = CONNECTED \<and>
   setupObserved connectedAfterRejectedToken \<and>
   authTokenEverSet connectedAfterRejectedToken \<and>
   \<not> authorizedSignalled connectedAfterRejectedToken"
  by (simp add: example_defs engine_defs Let_def setupObserved_def sessionEvents_def
        authTokenEverSet_def authorizedSignalled_def)

subsection \<open>The first auth state of a session\<close>

lemma processSetupMessage_auth_fields [simp]:
  "isFirstAuthState (state_of (processSetupMessage v k s)) = isFirstAuthState s"
  "lastSettedAuthToken (state_of (processSetupMessage v k s)) = lastSettedAuthToken s"
  by (simp_all add: processSetupMessage_def Let_def state_of_andThen)

lemma processAuthStateMessage_isFirstAuthState [simp]:
  "isFirstAuthState (state_of (processAuthStateMessage st now s)) = False"
  by (simp add: processAuthStateMessage_def Let_def state_of_andThen requestActiveChannels_def)

lemma processAuthStateMessage_token:
  "lastSettedAuthToken (state_of (processAuthStateMessage st now s)) =
     (if \<not> isFirstAuthState s \<and> st = UNAUTHORIZED then None else lastSettedAuthToken s)"
  by (simp add: processAuthStateMessage_def Let_def state_of_andThen requestActiveChannels_def)

lemma processMessage_isFirstAuthState:
  "isFirstAuthState (state_of (processMessage m now s)) = (isFirstAuthState s \<and> \<not> isAuthStateMessage m)"
  by (cases m)
     (auto simp add: processMessage_def Let_def isConnectionMessage_def isChannelMessage_def
        split: option.splits completion.splits)

lemma processMessage_token:
  "lastSettedAuthToken (state_of (processMessage m now s)) =
     (if \<not> isFirstAuthState s \<and> m = AuthStateMessage 0 UNAUTHORIZED then None
      else lastSettedAuthToken s)"
  by (cases m)
     (auto simp add: processMessage_def Let_def isConnectionMessage_def isChannelMessage_def
        processAuthStateMessage_token
        split: option.splits completion.splits)

lemma receive_not_first: "\<not> isFirstAuthState s \<Longrightarrow> \<not> isFirstAuthState (receive ms s)"
  by (induction ms s rule: receive.induct) (simp_all add: processMessage_isFirstAuthState)

lemma receive_no_auth_state:
  "list_all (\<lambda>(m, t). \<not> isAuthStateMessage m) ms \<Longrightarrow>
   isFirstAuthState (receive ms s) = isFirstAuthState s \<and>
   lastSettedAuthToken (receive ms s) = lastSettedAuthToken s"
proof (induction ms s rule: receive.induct)
  case (1 s)
  show ?case by simp
next
  case (2 m now rest s)
  then show ?case
    by (cases m) (auto simp add: processMessage_isFirstAuthState processMessage_token)
qed

lemma processTransportOpen_auth_fields [simp]:
  "isFirstAuthState (processTransportOpen now s) = isFirstAuthState s"
  "lastSettedAuthToken (processTransportOpen now s) = lastSettedAuthToken s"
  by (simp_all add: processTransportOpen_def Let_def sendAuthMessage_def split: option.split)

lemma reconnect_isFirstAuthState:
  "connectionState s \<noteq> NOT_CONNECTED \<Longrightarrow> connector s \<noteq> None \<Longrightarrow> isFirstAuthState (state_of (reconnect s))"
  by (auto simp add: reconnect_def Let_def state_of_andThen cancelAllSchedules_eq)

lemma disconnect_isFirstAuthState:
  "connectionState s \<noteq> NOT_CONNECTED \<Longrightarrow> isFirstAuthState (state_of (disconnect s))"
  by (auto simp add: disconnect_def Let_def state_of_andThen cancelAllSchedules_eq)

text \<open>
  C2. Take a state in which the next AUTH_STATE counts as first, let the transport open and
  deliver any messages other than AUTH_STATE: the AUTH_STATE that follows, whatever its state,
  leaves the remembered token as it was; after it, and after any further messages, an AUTH_STATE
  UNAUTHORIZED forgets the token. \<^verbatim>\<open>reconnect()\<close> and \<^verbatim>\<open>disconnect()\<close>, when they act at all, leave
  a state in which the next AUTH_STATE counts as first.
\<close>

theorem first_auth_state_keeps_token:
  "(isFirstAuthState s \<and> list_all (\<lambda>(m, t). \<not> isAuthStateMessage m) before \<longrightarrow>
      lastSettedAuthToken
        (state_of (processMessage (AuthStateMessage 0 st) t1
           (receive before (processTransportOpen t0 s)))) = lastSettedAuthToken s \<and>
      lastSettedAuthToken
        (state_of (processMessage (AuthStateMessage 0 UNAUTHORIZED) t2
           (receive later
              (state_of (processMessage (AuthStateMessage 0 st) t1
                 (receive before (processTransportOpen t0 s))))))) = None) \<and>
   (connectionState s \<noteq> NOT_CONNECTED \<and> connector s \<noteq> None \<longrightarrow>
      isFirstAuthState (state_of (reconnect s))) \<and>
   (connectionState s \<noteq> NOT_CONNECTED \<longrightarrow> isFirstAuthState (state_of (disconnect s)))"
proof (intro conjI impI)
  assume a: "isFirstAuthState s \<and> list_all (\<lambda>(m, t). \<not> isAuthStateMessage m) before"
  let ?s1 = "receive before (processTransportOpen t0 s)"
  let ?s2 = "state_of (processMessage (AuthStateMessage 0 st) t1 ?s1)"
  from a have s1: "isFirstAuthState ?s1" "lastSettedAuthToken ?s1 = lastSettedAuthToken s"
    using receive_no_auth_state [of before "processTransportOpen t0 s"] by simp_all
  then show "lastSettedAuthToken ?s2 = lastSettedAuthToken s"
    by (simp add: processMessage_token)
  have "\<not> isFirstAuthState ?s2" by (simp add: processMessage_isFirstAuthState)
  then have "\<not> isFirstAuthState (receive later ?s2)" by (rule receive_not_first)
  then show "lastSettedAuthToken
        (state_of (processMessage (AuthStateMessage 0 UNAUTHORIZED) t2 (receive later ?s2))) = None"
    by (simp add: processMessage_token)
next
  assume "connectionState s \<noteq> NOT_CONNECTED \<and> connector s \<noteq> None"
  then show "isFirstAuthState (state_of (reconnect s))" by (simp add: reconnect_isFirstAuthState)
next
  assume "connectionState s \<noteq> NOT_CONNECTED"
  then show "isFirstAuthState (state_of (disconnect s))" by (rule disconnect_isFirstAuthState)
qed

text \<open>Scenario 5: token T, the server's SETUP, then UNAUTHORIZED twice.\<close>

theorem first_auth_state_keeps_token_witness:
  "isFirstAuthState (run openedWithToken engine0) \<and>
   list_all (\<lambda>(m, t). \<not> isAuthStateMessage m) [(SetupMessage 0 ''1.0'' (Some 60) None, 20)] \<and>
   connectionState (run openedWithToken engine0) \<noteq> NOT_CONNECTED \<and>
   connector (run openedWithToken engine0) \<noteq> None \<and>
   lastSettedAuthToken
     (state_of (processMessage (AuthStateMessage 0 UNAUTHORIZED) 30
        (receive [(SetupMessage 0 ''1.0'' (Some 60) None, 20)]
           (processTransportOpen 15 (run openedWithToken engine0))))) = Some ''T'' \<and>
   lastSettedAuthToken
     (state_of (processMessage (AuthStateMessage 0 UNAUTHORIZED) 40
        (receive []
           (state_of (processMessage (AuthStateMessage 0 UNAUTHORIZED) 30
              (receive [(SetupMessage 0 ''1.0'' (Some 60) None, 20)]
                 (processTransportOpen 15 (run openedWithToken engine0)))))))) = None \<and>
   isFirstAuthState (state_of (reconnect (run openedWithToken engine0))) \<and>
   isFirstAuthState (state_of (disconnect (run openedWithToken engine0)))"
proof -
  have h: "isFirstAuthState (run openedWithToken engine0)"
    "list_all (\<lambda>(m, t). \<not> isAuthStateMessage m) [(SetupMessage 0 ''1.0'' (Some 60) None, 20)]"
    "connectionState (run openedWithToken engine0) \<noteq> NOT_CONNECTED"
    "connector (run openedWithToken engine0) \<noteq> None"
    "lastSettedAuthToken (run openedWithToken engine0) = Some ''T''"
    by (simp_all add: example_defs engine_defs Let_def)
  show ?thesis
    using h first_auth_state_keeps_token
      [of "run openedWithToken engine0" "[(SetupMessage 0 ''1.0'' (Some 60) None, 20)]"
          UNAUTHORIZED 30 15 40 "[]"]
    by simp
qed

subsection \<open>The peer-liveness timer\<close>

lemma schedule_timeoutIds:
  "timeoutIds (schedule key cb t s) =
     filter (\<lambda>x. timer_key x \<noteq> key) (timeoutIds s) @
       [\<lparr>timer_key = key, timer_callback = cb, timer_delay = t, timer_fired = False\<rparr>]"
  by (simp add: schedule_def cancelSchedule_def Let_def)

lemma processSetupMessage_done:
  "raised (processSetupMessage v k s) = None \<Longrightarrow>
   \<exists>s4. state_of (processSetupMessage v k s) =
      schedule ''TIMEOUT'' (TimeoutCheckCallback ((case k of None \<Rightarrow> 60 | Some n \<Rightarrow> n) * 1000))
        ((case k of None \<Rightarrow> 60 | Some n \<Rightarrow> n) * 1000) s4"
  by (auto simp add: processSetupMessage_def Let_def state_of_andThen raised_andThen split: if_splits)

lemma keepsTimeout_refl [simp]: "keepsTimeout s s"
  by (simp add: keepsTimeout_def)

lemma keepsTimeout_trans: "keepsTimeout s s1 \<Longrightarrow> keepsTimeout s1 s2 \<Longrightarrow> keepsTimeout s s2"
  by (auto simp add: keepsTimeout_def)

lemma keepsTimeout_same: "timeoutIds s' = timeoutIds s \<Longrightarrow> keepsTimeout s s'"
  by (simp add: keepsTimeout_def)

lemma keepsTimeout_subset: "set (timeoutIds s') \<subseteq> set (timeoutIds s) \<Longrightarrow> keepsTimeout s s'"
  by (auto simp add: keepsTimeout_def)

lemma keepsTimeout_frame [simp]:
  "keepsTimeout s (emit fx x) = keepsTimeout s x"
  "keepsTimeout s (setAuthState a x) = keepsTimeout s x"
  "keepsTimeout s (publishError err x) = keepsTimeout s x"
  "keepsTimeout s (state_of (setConnectionState n x)) = keepsTimeout s x"
  "keepsTimeout s (updateChannel i r x) = keepsTimeout s x"
  "keepsTimeout s (x\<lparr>isFirstAuthState := b\<rparr>) = keepsTimeout s x"
  "keepsTimeout s (x\<lparr>lastSettedAuthToken := tk\<rparr>) = keepsTimeout s x"
  "keepsTimeout s (x\<lparr>lastReceivedMillis := now\<rparr>) = keepsTimeout s x"
  "keepsTimeout s (x\<lparr>lastSentMillis := ls\<rparr>) = keepsTimeout s x"
  "keepsTimeout s (x\<lparr>connectionDetails := cd\<rparr>) = keepsTimeout s x"
  "keepsTimeout s (x\<lparr>reconnectAttempts := ra\<rparr>) = keepsTimeout s x"
  "keepsTimeout s (x\<lparr>channels := cs\<rparr>) = keepsTimeout s x"
  "keepsTimeout s (x\<lparr>heap := hp\<rparr>) = keepsTimeout s x"
  "keepsTimeout s (x\<lparr>globalChannelId := g\<rparr>) = keepsTimeout s x"
  "keepsTimeout s (x\<lparr>connector := cn\<rparr>) = keepsTimeout s x"
  "keepsTimeout s (x\<lparr>nextPromise := np\<rparr>) = keepsTimeout s x"
  by (simp_all add: keepsTimeout_def updateChannel_def)

lemma keepsTimeout_listeners [simp]:
  "keepsTimeout s (addConnectionStateChangeListener cl x) = keepsTimeout s x"
  "keepsTimeout s (removeConnectionStateChangeListener cl x) = keepsTimeout s x"
  "keepsTimeout s (addAuthStateChangeListener al x) = keepsTimeout s x"
  "keepsTimeout s (removeAuthStateChangeListener al x) = keepsTimeout s x"
  "keepsTimeout s (addErrorListener el x) = keepsTimeout s x"
  "keepsTimeout s (removeErrorListener el x) = keepsTimeout s x"
  by (simp_all add: keepsTimeout_def addConnectionStateChangeListener_def
        removeConnectionStateChangeListener_def addAuthStateChangeListener_def
        removeAuthStateChangeListener_def addErrorListener_def removeErrorListener_def)

lemma sendMessage_timeoutIds:
  "timeoutIds (sendMessage m now s) =
     filter (\<lambda>x. timer_key x \<noteq> ''KEEPALIVE'') (timeoutIds s) @
       [\<lparr>timer_key = ''KEEPALIVE'', timer_callback = KeepaliveCallback,
         timer_delay = keepaliveInterval (config s) * 1000, timer_fired = False\<rparr>]"
  by (simp add: sendMessage_def scheduleKeepalive_def schedule_timeoutIds Let_def split: option.split)

lemma keepsTimeout_timers [simp]:
  "keepsTimeout s x \<Longrightarrow> keepsTimeout s (cancelSchedule key x)"
  "keepsTimeout s x \<Longrightarrow> key \<noteq> ''TIMEOUT'' \<Longrightarrow> keepsTimeout s (schedule key cb d x)"
  "keepsTimeout s x \<Longrightarrow> keepsTimeout s (cancelAllSchedules x)"
  "keepsTimeout s x \<Longrightarrow> keepsTimeout s (sendMessage m now x)"
  "keepsTimeout s x \<Longrightarrow> keepsTimeout s (scheduleKeepalive x)"
  by (auto simp add: keepsTimeout_def cancelSchedule_def schedule_timeoutIds cancelAllSchedules_eq
        sendMessage_timeoutIds scheduleKeepalive_def)

lemma keepsTimeout_sendAuthMessage [simp]:
  "keepsTimeout s x \<Longrightarrow> keepsTimeout s (sendAuthMessage tok now x)"
  by (simp add: sendAuthMessage_def Let_def)

lemma keepsTimeout_disconnect [simp]:
  "keepsTimeout s x \<Longrightarrow> keepsTimeout s (state_of (disconnect x))"
  by (simp add: disconnect_def Let_def state_of_andThen split: option.split)

lemma keepsTimeout_reconnect [simp]:
  "keepsTimeout s x \<Longrightarrow> keepsTimeout s (state_of (reconnect x))"
  by (simp add: reconnect_def Let_def state_of_andThen)

lemma keepsTimeout_connect [simp]:
  "keepsTimeout s x \<Longrightarrow> keepsTimeout s (state_of (connect url x))"
  by (simp add: connect_def Let_def state_of_andThen)

lemma keepsTimeout_requestChannel [simp]:
  "keepsTimeout s x \<Longrightarrow> keepsTimeout s (requestChannel i now x)"
  by (simp add: requestChannel_def Let_def split: option.split prod.split)

lemma keepsTimeout_loop [simp]:
  "keepsTimeout s x \<Longrightarrow> keepsTimeout s (requestActiveChannelsLoop js now x)"
  by (induction js now x rule: requestActiveChannelsLoop.induct) (simp_all split: option.split)

lemma keepsTimeout_processAuthStateMessage [simp]:
  "keepsTimeout s x \<Longrightarrow> keepsTimeout s (state_of (processAuthStateMessage st now x))"
  by (simp add: processAuthStateMessage_def Let_def state_of_andThen requestActiveChannels_def)

lemma keepsTimeout_perform [simp]:
  "keepsTimeout s x \<Longrightarrow> keepsTimeout s (perform fx now x)"
  by (induction fx now x rule: perform.induct) simp_all

lemma keepsTimeout_onChannel [simp]:
  "keepsTimeout s x \<Longrightarrow> keepsTimeout s (state_of (onChannel i method now x))"
  by (simp add: onChannel_def split: option.split completion.split prod.split)

lemma keepsTimeout_openChannel [simp]:
  "keepsTimeout s x \<Longrightarrow> keepsTimeout s (openChannel sv ps now x)"
  by (simp add: openChannel_def Let_def)

lemma keepsTimeout_setAuthToken [simp]:
  "keepsTimeout s x \<Longrightarrow> keepsTimeout s (setAuthToken tok now x)"
  by (simp add: setAuthToken_def Let_def)

lemma keepsTimeout_processTransportOpen [simp]:
  "keepsTimeout s x \<Longrightarrow> keepsTimeout s (processTransportOpen now x)"
  by (simp add: processTransportOpen_def Let_def split: option.split)

lemma keepsTimeout_processTransportClose [simp]:
  "keepsTimeout s x \<Longrightarrow> keepsTimeout s (state_of (processTransportClose x))"
  by (simp add: processTransportClose_def)

lemma keepsTimeout_actionTimeoutExpired [simp]:
  "keepsTimeout s x \<Longrightarrow> keepsTimeout s (state_of (actionTimeoutExpired what now x))"
  by (simp add: actionTimeoutExpired_def Let_def)

text \<open>The two places that schedule TIMEOUT.\<close>

lemma setsTimeout_schedule:
  "keepsTimeout s x \<Longrightarrow> setsTimeout d s (schedule ''TIMEOUT'' cb d x)"
  by (auto simp add: keepsTimeout_def setsTimeout_def schedule_timeoutIds)

lemma keeps_sets: "keepsTimeout s x \<Longrightarrow> setsTimeout d s x"
  by (auto simp add: keepsTimeout_def setsTimeout_def)

lemma setsTimeout_processSetupMessage:
  "setsTimeout ((case k of None \<Rightarrow> 60 | Some n \<Rightarrow> n) * 1000) s (state_of (processSetupMessage v k s))"
  by (simp add: processSetupMessage_def Let_def state_of_andThen setsTimeout_schedule keeps_sets)

lemma setsTimeout_timeoutCheck:
  "keepsTimeout s x \<Longrightarrow>
   setsTimeout (max 200 (tm - (now - lastReceivedMillis x))) s (state_of (timeoutCheck tm now x))"
  by (simp add: timeoutCheck_def Let_def setsTimeout_schedule keeps_sets)

lemma processMessage_timeout:
  "keepsTimeout s (state_of (processMessage m now s)) \<or>
   (\<exists>v k a. m = SetupMessage 0 v k a \<and>
      setsTimeout ((case k of None \<Rightarrow> 60 | Some n \<Rightarrow> n) * 1000) s (state_of (processMessage m now s)))"
proof -
  let ?s1 = "s\<lparr>lastReceivedMillis := now\<rparr>"
  let ?s2 = "if keepaliveInterval (config ?s1) * 1000 \<le> lastReceivedMillis ?s1 - lastSentMillis ?s1
             then sendMessage [(''type'', JSString ''KEEPALIVE''), (''channel'', JSNumber 0)] now ?s1
             else ?s1"
  have k2: "keepsTimeout s ?s2" by simp
  show ?thesis
  proof (cases m)
    case (SetupMessage c v k a)
    show ?thesis
    proof (cases "c = 0")
      case True
      have "setsTimeout ((case k of None \<Rightarrow> 60 | Some n \<Rightarrow> n) * 1000) s
              (state_of (processSetupMessage v k ?s2))"
        using k2
        by (simp add: processSetupMessage_def Let_def state_of_andThen setsTimeout_schedule keeps_sets)
      then show ?thesis using True SetupMessage
        by (simp add: processMessage_def Let_def isConnectionMessage_def)
    next
      case False
      then show ?thesis using SetupMessage k2
        by (simp add: processMessage_def Let_def isConnectionMessage_def isChannelMessage_def
              split: option.split completion.split)
    qed
  qed (use k2 in \<open>simp_all add: processMessage_def Let_def isConnectionMessage_def
         isChannelMessage_def split: option.split completion.split\<close>)
qed

lemma runCallback_timeout:
  "keepsTimeout s x \<Longrightarrow>
   keepsTimeout s (state_of (runCallback cb now x)) \<or>
   (\<exists>tm. setsTimeout (max 200 (tm - (now - lastReceivedMillis x))) s (state_of (runCallback cb now x)))"
proof (cases cb)
  case (TimeoutCheckCallback tm)
  assume "keepsTimeout s x"
  then have "setsTimeout (max 200 (tm - (now - lastReceivedMillis x))) s
               (state_of (timeoutCheck tm now x))"
    by (rule setsTimeout_timeoutCheck)
  then show ?thesis using TimeoutCheckCallback by auto
qed (simp_all split: option.split)

lemma fireTimer_timeout:
  "keepsTimeout s (state_of (fireTimer key now s)) \<or>
   (\<exists>d. 200 \<le> d \<and> setsTimeout d s (state_of (fireTimer key now s)))"
proof (cases "find (\<lambda>t. timer_key t = key \<and> \<not> timer_fired t) (timeoutIds s)")
  case None
  then show ?thesis by (simp add: fireTimer_def)
next
  case (Some t)
  let ?x = "s\<lparr>timeoutIds := map (\<lambda>x. if timer_key x = key then x\<lparr>timer_fired := True\<rparr> else x)
                                (timeoutIds s)\<rparr>"
  have kx: "keepsTimeout s ?x" by (auto simp add: keepsTimeout_def)
  from runCallback_timeout [OF kx, of "timer_callback t" now]
  show ?thesis
  proof
    assume "keepsTimeout s (state_of (runCallback (timer_callback t) now ?x))"
    then show ?thesis using Some by (simp add: fireTimer_def)
  next
    assume "\<exists>tm. setsTimeout (max 200 (tm - (now - lastReceivedMillis ?x))) s
              (state_of (runCallback (timer_callback t) now ?x))"
    then obtain tm where "setsTimeout (max 200 (tm - (now - lastReceivedMillis ?x))) s
              (state_of (runCallback (timer_callback t) now ?x))" ..
    moreover have "200 \<le> max 200 (tm - (now - lastReceivedMillis ?x))" by simp
    ultimately show ?thesis using Some by (auto simp add: fireTimer_def)
  qed
qed

text \<open>
  A pending TIMEOUT timer that a step adds comes from a server SETUP, with the delay of that
  SETUP, or from a timer callback, with a delay of at least 200 ms.
\<close>

lemma timeout_scheduled_only_by_setup_or_check:
  assumes "t \<in> set (timeoutIds (state_of (step ev now s)))"
    and "timer_key t = ''TIMEOUT''" and "\<not> timer_fired t" and "t \<notin> set (timeoutIds s)"
  shows "(\<exists>v k a. ev = TransportMessage (SetupMessage 0 v k a) \<and>
            timer_delay t = (case k of None \<Rightarrow> 60 | Some n \<Rightarrow> n) * 1000) \<or>
         (\<exists>key. ev = TimerFired key \<and> 200 \<le> timer_delay t)"
proof -
  have nk: "\<not> keepsTimeout s (state_of (step ev now s))"
    using assms by (auto simp add: keepsTimeout_def)
  show ?thesis
  proof (cases ev)
    case (TransportMessage m)
    with nk processMessage_timeout [of s m now] obtain v k a where
      "m = SetupMessage 0 v k a"
      "setsTimeout ((case k of None \<Rightarrow> 60 | Some n \<Rightarrow> n) * 1000) s (state_of (step ev now s))"
      by auto
    with assms TransportMessage show ?thesis by (auto simp add: setsTimeout_def)
  next
    case (TimerFired key)
    with nk fireTimer_timeout [of s key now] obtain d where
      "200 \<le> d" "setsTimeout d s (state_of (step ev now s))" by auto
    with assms TimerFired show ?thesis by (auto simp add: setsTimeout_def)
  qed (use nk in \<open>simp_all add: quiet_def\<close>)
qed

text \<open>
  C5 (as the code has it). A step of the engine adds a pending TIMEOUT timer only when it
  processes a server SETUP, with the delay of that SETUP, or when it runs a timer callback, with
  a delay of at least 200 ms. When \<^verbatim>\<open>processSetupMessage\<close> returns, the TIMEOUT timer is
  pending with a delay of exactly \<^verbatim>\<open>(serverSetup.keepaliveTimeout ?? 60) * 1000\<close> ms and no
  floor: for a whole number of seconds the delay is at least 200 ms exactly when the server's
  keepaliveTimeout is absent or at least 1. When the timeout check finds that less than \<^verbatim>\<open>timeoutMills\<close> has passed since
  the last message, it schedules TIMEOUT again at max(200, timeoutMills minus that time), which
  is at least 200 ms.
\<close>

theorem timeout_timer_delay:
  "(t \<in> set (timeoutIds (state_of (step ev now0 s0))) \<and> timer_key t = ''TIMEOUT'' \<and>
    \<not> timer_fired t \<and> t \<notin> set (timeoutIds s0) \<longrightarrow>
      (\<exists>v k a. ev = TransportMessage (SetupMessage 0 v k a) \<and>
         timer_delay t = (case k of None \<Rightarrow> 60 | Some n \<Rightarrow> n) * 1000) \<or>
      (\<exists>key. ev = TimerFired key \<and> 200 \<le> timer_delay t)) \<and>
   (raised (processSetupMessage version k s) = None \<longrightarrow>
      filter (\<lambda>t. timer_key t = ''TIMEOUT'')
        (timeoutIds (state_of (processSetupMessage version k s))) =
        [\<lparr>timer_key = ''TIMEOUT'',
          timer_callback = TimeoutCheckCallback ((case k of None \<Rightarrow> 60 | Some n \<Rightarrow> n) * 1000),
          timer_delay = (case k of None \<Rightarrow> 60 | Some n \<Rightarrow> n) * 1000, timer_fired = False\<rparr>]) \<and>
   (200 \<le> (case k of None \<Rightarrow> 60 | Some n \<Rightarrow> n) * 1000) =
     (case k of None \<Rightarrow> True | Some n \<Rightarrow> 1 \<le> n) \<and>
   (now - lastReceivedMillis s < timeoutMills \<longrightarrow>
      filter (\<lambda>t. timer_key t = ''TIMEOUT'')
        (timeoutIds (state_of (timeoutCheck timeoutMills now s))) =
        [\<lparr>timer_key = ''TIMEOUT'', timer_callback = TimeoutCheckCallback timeoutMills,
          timer_delay = max 200 (timeoutMills - (now - lastReceivedMillis s)),
          timer_fired = False\<rparr>] \<and>
      200 \<le> max 200 (timeoutMills - (now - lastReceivedMillis s)))"
proof (intro conjI impI)
  assume "t \<in> set (timeoutIds (state_of (step ev now0 s0))) \<and> timer_key t = ''TIMEOUT'' \<and>
    \<not> timer_fired t \<and> t \<notin> set (timeoutIds s0)"
  then show "(\<exists>v k a. ev = TransportMessage (SetupMessage 0 v k a) \<and>
         timer_delay t = (case k of None \<Rightarrow> 60 | Some n \<Rightarrow> n) * 1000) \<or>
      (\<exists>key. ev = TimerFired key \<and> 200 \<le> timer_delay t)"
    using timeout_scheduled_only_by_setup_or_check [of t ev now0 s0] by blast
next
  assume "raised (processSetupMessage version k s) = None"
  from processSetupMessage_done [OF this] obtain s4 where
    "state_of (processSetupMessage version k s) =
      schedule ''TIMEOUT'' (TimeoutCheckCallback ((case k of None \<Rightarrow> 60 | Some n \<Rightarrow> n) * 1000))
        ((case k of None \<Rightarrow> 60 | Some n \<Rightarrow> n) * 1000) s4" ..
  then show "filter (\<lambda>t. timer_key t = ''TIMEOUT'')
        (timeoutIds (state_of (processSetupMessage version k s))) =
        [\<lparr>timer_key = ''TIMEOUT'',
          timer_callback = TimeoutCheckCallback ((case k of None \<Rightarrow> 60 | Some n \<Rightarrow> n) * 1000),
          timer_delay = (case k of None \<Rightarrow> 60 | Some n \<Rightarrow> n) * 1000, timer_fired = False\<rparr>]"
    by (simp add: schedule_timeoutIds)
next
  show "(200 \<le> (case k of None \<Rightarrow> 60 | Some n \<Rightarrow> n) * 1000) =
     (case k of None \<Rightarrow> True | Some n \<Rightarrow> 1 \<le> n)"
    by (cases k) auto
next
  assume "now - lastReceivedMillis s < timeoutMills"
  then show "filter (\<lambda>t. timer_key t = ''TIMEOUT'')
        (timeoutIds (state_of (timeoutCheck timeoutMills now s))) =
        [\<lparr>timer_key = ''TIMEOUT'', timer_callback = TimeoutCheckCallback timeoutMills,
          timer_delay = max 200 (timeoutMills - (now - lastReceivedMillis s)),
          timer_fired = False\<rparr>]"
    by (simp add: timeoutCheck_def Let_def schedule_timeoutIds)
next
  show "200 \<le> max 200 (timeoutMills - (now - lastReceivedMillis s))" by simp
qed

text \<open>
  The first SETUP of a connection, with keepaliveTimeout 45, adds the timer; the same SETUP on
  the connected engine, whose last message came at 20, sets it again; and a timeout check
  100 ms before the 45 s are over sets it to 200 ms.
\<close>

theorem timeout_timer_delay_witness:
  "\<lparr>timer_key = ''TIMEOUT'', timer_callback = TimeoutCheckCallback 45000, timer_delay = 45000,
     timer_fired = False\<rparr>
     \<in> set (timeoutIds (state_of (step (TransportMessage (SetupMessage 0 ''1.0'' (Some 45) None)) 20
                 (run opened engine0)))) \<and>
   \<lparr>timer_key = ''TIMEOUT'', timer_callback = TimeoutCheckCallback 45000, timer_delay = 45000,
     timer_fired = False\<rparr> \<notin> set (timeoutIds (run opened engine0)) \<and>
   raised (processSetupMessage ''1.0'' (Some 45) (run connectedWithListener engine0)) = None \<and>
   filter (\<lambda>t. timer_key t = ''TIMEOUT'')
     (timeoutIds (state_of (processSetupMessage ''1.0'' (Some 45)
        (run connectedWithListener engine0)))) =
     [\<lparr>timer_key = ''TIMEOUT'', timer_callback = TimeoutCheckCallback 45000,
       timer_delay = 45000, timer_fired = False\<rparr>] \<and>
   44920 - lastReceivedMillis (run connectedWithListener engine0) < 45000 \<and>
   filter (\<lambda>t. timer_key t = ''TIMEOUT'')
     (timeoutIds (state_of (timeoutCheck 45000 44920 (run connectedWithListener engine0)))) =
     [\<lparr>timer_key = ''TIMEOUT'', timer_callback = TimeoutCheckCallback 45000,
       timer_delay = 200, timer_fired = False\<rparr>]"
proof -
  have h: "raised (processSetupMessage ''1.0'' (Some 45) (run connectedWithListener engine0)) = None"
    "lastReceivedMillis (run connectedWithListener engine0) = 20"
    "\<lparr>timer_key = ''TIMEOUT'', timer_callback = TimeoutCheckCallback 45000, timer_delay = 45000,
       timer_fired = False\<rparr>
       \<in> set (timeoutIds (state_of (step (TransportMessage (SetupMessage 0 ''1.0'' (Some 45) None)) 20
                   (run opened engine0))))"
    "\<lparr>timer_key = ''TIMEOUT'', timer_callback = TimeoutCheckCallback 45000, timer_delay = 45000,
       timer_fired = False\<rparr> \<notin> set (timeoutIds (run opened engine0))"
    by (simp_all add: example_defs engine_defs Let_def)
  show ?thesis
    using h timeout_timer_delay
      [where t = "\<lparr>timer_key = ''TIMEOUT'', timer_callback = TimeoutCheckCallback 45000,
                    timer_delay = 45000, timer_fired = False\<rparr>"
         and ev = "TransportMessage (SetupMessage 0 ''1.0'' (Some 45) None)"
         and ?now0.0 = 20 and ?s0.0 = "run opened engine0"
         and version = "''1.0''" and k = "Some 45"
         and s = "run connectedWithListener engine0" and now = 44920 and timeoutMills = 45000]
    by simp
qed

text \<open>
  C5 as stated fails: a server SETUP with keepaliveTimeout 0 schedules TIMEOUT at 0 ms, where
  the claim has max(200, 0 * 1000) = 200 ms.
\<close>

theorem setup_timeout_below_floor_counterexample:
  "map timer_delay
     (filter (\<lambda>t. timer_key t = ''TIMEOUT'') (timeoutIds (run zeroKeepaliveSetup engine0))) = [0] \<and>
   max 200 (0 * 1000) = (200::int)"
  by (simp add: example_defs engine_defs Let_def)

subsection \<open>Reconnect\<close>

text \<open>
  When \<^verbatim>\<open>reconnect()\<close> is not a no-op it increments the counter; when it also returns, the only
  pending timer is RECONNECT at the new count times 1000 ms. A SETUP processed while the engine
  is not NOT_CONNECTED resets the counter.
\<close>

lemma reconnect_backoff:
  "connectionState s \<noteq> NOT_CONNECTED \<Longrightarrow> connector s \<noteq> None \<Longrightarrow>
   reconnectAttempts (state_of (reconnect s)) = reconnectAttempts s + 1 \<and>
   (raised (reconnect s) = None \<longrightarrow>
      timeoutIds (state_of (reconnect s)) =
        [\<lparr>timer_key = ''RECONNECT'', timer_callback = ReconnectCallback,
          timer_delay = (reconnectAttempts s + 1) * 1000, timer_fired = False\<rparr>])"
  by (auto simp add: reconnect_def Let_def state_of_andThen raised_andThen cancelAllSchedules_eq
        schedule_timeoutIds)

lemma processSetupMessage_resets:
  "connectionState s \<noteq> NOT_CONNECTED \<Longrightarrow> reconnectAttempts (state_of (processSetupMessage v k s)) = 0"
  by (cases "connectionState s")
     (auto simp add: processSetupMessage_def Let_def state_of_andThen)

text \<open>
  The counter is 0 whenever the engine is NOT_CONNECTED, in every state it reaches; so every
  SETUP it processes leaves the counter at 0.
\<close>

lemma attemptsOk_disconnect: "attemptsOk s \<Longrightarrow> attemptsOk (state_of (disconnect s))"
  by (auto simp add: attemptsOk_def disconnect_def Let_def state_of_andThen cancelAllSchedules_eq)

lemma attemptsOk_reconnect: "attemptsOk s \<Longrightarrow> attemptsOk (state_of (reconnect s))"
proof (cases "connectionState s = NOT_CONNECTED \<or> connector s = None")
  case True
  then have "reconnect s = Done s" by (simp add: reconnect_def)
  then show "attemptsOk s \<Longrightarrow> attemptsOk (state_of (reconnect s))" by simp
next
  case False
  then show "attemptsOk (state_of (reconnect s))"
    by (simp add: attemptsOk_def reconnect_connectionState)
qed

lemma attemptsOk_connect: "attemptsOk s \<Longrightarrow> attemptsOk (state_of (connect url s))"
proof -
  assume ok: "attemptsOk s"
  have d: "attemptsOk (state_of (disconnect s))" using ok by (rule attemptsOk_disconnect)
  show ?thesis
    using ok d
    by (auto simp add: connect_def Let_def state_of_andThen attemptsOk_def
          addConnectionStateChangeListener_def)
qed

lemma attemptsOk_processSetupMessage:
  "attemptsOk s \<Longrightarrow> attemptsOk (state_of (processSetupMessage v k s))"
  by (cases "connectionState s")
     (auto simp add: attemptsOk_def processSetupMessage_def Let_def state_of_andThen)

lemma processAuthStateMessage_attempts [simp]:
  "reconnectAttempts (state_of (processAuthStateMessage st now s)) = reconnectAttempts s"
  by (simp add: processAuthStateMessage_def Let_def state_of_andThen requestActiveChannels_def)

lemma processSetupMessage_attempts:
  "reconnectAttempts (state_of (processSetupMessage v k s)) =
     (if connectionState s = NOT_CONNECTED then reconnectAttempts s else 0)"
  by (cases "connectionState s")
     (auto simp add: processSetupMessage_def Let_def state_of_andThen)

lemma processSetupMessage_not_connected:
  "connectionState (state_of (processSetupMessage v k s)) = NOT_CONNECTED \<Longrightarrow>
   connectionState s = NOT_CONNECTED"
  by (cases "connectionState s")
     (auto simp add: processSetupMessage_def Let_def state_of_andThen split: if_splits)

lemma processAuthStateMessage_not_connected:
  "connectionState (state_of (processAuthStateMessage st now s)) = NOT_CONNECTED \<Longrightarrow>
   connectionState s = NOT_CONNECTED"
  by (auto simp add: processAuthStateMessage_def Let_def state_of_andThen requestActiveChannels_def
        split: if_splits)

lemma processMessage_not_connected:
  "connectionState (state_of (processMessage m now s)) = NOT_CONNECTED \<Longrightarrow>
   connectionState s = NOT_CONNECTED"
  by (cases m)
     (auto simp add: processMessage_def Let_def isConnectionMessage_def isChannelMessage_def
        dest!: processSetupMessage_not_connected processAuthStateMessage_not_connected
        split: if_splits option.splits completion.splits)

lemma processMessage_attempts:
  "connectionState s \<noteq> NOT_CONNECTED \<or> reconnectAttempts s = 0 \<Longrightarrow>
   reconnectAttempts (state_of (processMessage m now s)) = 0 \<or>
   reconnectAttempts (state_of (processMessage m now s)) = reconnectAttempts s"
  by (cases m)
     (auto simp add: processMessage_def Let_def isConnectionMessage_def isChannelMessage_def
        processSetupMessage_attempts
        split: if_splits option.splits completion.splits)

lemma attemptsOk_processMessage:
  assumes ok: "attemptsOk s"
  shows "attemptsOk (state_of (processMessage m now s))"
  using ok processMessage_not_connected [of m now s] processMessage_attempts [of s m now]
  by (auto simp add: attemptsOk_def)

lemma attemptsOk_runCallback: "attemptsOk s \<Longrightarrow> attemptsOk (state_of (runCallback cb now s))"
proof (cases cb)
  case SetupTimeoutCallback
  assume "attemptsOk s"
  then have "attemptsOk (publishError e (sendMessage m now s))" for e m
    by (simp add: attemptsOk_def)
  then show ?thesis using SetupTimeoutCallback
    by (simp add: actionTimeoutExpired_def Let_def attemptsOk_disconnect)
next
  case AuthStateTimeoutCallback
  assume "attemptsOk s"
  then have "attemptsOk (publishError e (sendMessage m now s))" for e m
    by (simp add: attemptsOk_def)
  then show ?thesis using AuthStateTimeoutCallback
    by (simp add: actionTimeoutExpired_def Let_def attemptsOk_disconnect)
next
  case KeepaliveCallback
  assume "attemptsOk s"
  then show ?thesis using KeepaliveCallback
    by (simp add: attemptsOk_def scheduleKeepalive_def)
next
  case (TimeoutCheckCallback t)
  assume ok: "attemptsOk s"
  then have "attemptsOk (sendMessage m now s)" for m by (simp add: attemptsOk_def)
  then have "attemptsOk (state_of (reconnect (sendMessage m now s)))" for m
    by (rule attemptsOk_reconnect)
  moreover have "attemptsOk (schedule k c d s)" for k c d using ok by (simp add: attemptsOk_def)
  ultimately show ?thesis using TimeoutCheckCallback
    by (simp add: timeoutCheck_def Let_def)
next
  case ReconnectCallback
  assume "attemptsOk s"
  then show ?thesis using ReconnectCallback
    by (simp add: attemptsOk_def split: option.split)
qed

lemma attemptsOk_fireTimer: "attemptsOk s \<Longrightarrow> attemptsOk (state_of (fireTimer key now s))"
proof -
  assume ok: "attemptsOk s"
  have "attemptsOk (s\<lparr>timeoutIds := ts\<rparr>)" for ts using ok by (simp add: attemptsOk_def)
  then show ?thesis
    by (simp add: fireTimer_def attemptsOk_runCallback ok split: option.split)
qed

lemma attemptsOk_step: "attemptsOk s \<Longrightarrow> attemptsOk (state_of (step ev now s))"
proof (cases ev)
  case (SetAuthToken t)
  assume "attemptsOk s"
  then show ?thesis using SetAuthToken
    by (simp add: attemptsOk_def setAuthToken_def Let_def sendAuthMessage_def)
next
  case (OpenChannel sv ps)
  assume "attemptsOk s"
  then show ?thesis using OpenChannel
    by (simp add: attemptsOk_def openChannel_def Let_def)
next
  case TransportOpen
  assume "attemptsOk s"
  then show ?thesis using TransportOpen
    by (simp add: attemptsOk_def processTransportOpen_def Let_def sendAuthMessage_def
          split: option.split)
next
  case TransportClose
  assume ok: "attemptsOk s"
  then have "attemptsOk (s\<lparr>lastSettedAuthToken := None\<rparr>)" by (simp add: attemptsOk_def)
  then show ?thesis using TransportClose ok
    by (simp add: processTransportClose_def attemptsOk_disconnect attemptsOk_reconnect)
qed (simp_all add: attemptsOk_disconnect attemptsOk_reconnect attemptsOk_connect
       attemptsOk_processMessage attemptsOk_fireTimer,
     simp_all add: attemptsOk_def addConnectionStateChangeListener_def
       removeConnectionStateChangeListener_def addAuthStateChangeListener_def
       removeAuthStateChangeListener_def addErrorListener_def removeErrorListener_def
       onChannel_def split: option.split completion.split)

lemma attemptsOk_run: "attemptsOk s \<Longrightarrow> attemptsOk (run evs s)"
  by (induction evs s rule: run.induct) (simp_all add: attemptsOk_step)

lemma setup_resets_attempts:
  "reconnectAttempts (state_of (processSetupMessage v k (run evs (newDXLinkWebSocket cfg)))) = 0"
proof -
  have "attemptsOk (newDXLinkWebSocket cfg)" by (simp add: attemptsOk_def newDXLinkWebSocket_def)
  then have ok: "attemptsOk (run evs (newDXLinkWebSocket cfg))" by (rule attemptsOk_run)
  show ?thesis
  proof (cases "connectionState (run evs (newDXLinkWebSocket cfg)) = NOT_CONNECTED")
    case True
    with ok show ?thesis
      by (simp add: attemptsOk_def processSetupMessage_def Let_def state_of_andThen)
  next
    case False
    then show ?thesis by (rule processSetupMessage_resets)
  qed
qed

text \<open>
  C8. Every \<^verbatim>\<open>reconnect()\<close> that is not a no-op must schedule RECONNECT at N * 1000 ms. It
  calls \<^verbatim>\<open>setConnectionState(CONNECTING)\<close> first, whose listener loop has no try/catch: on a
  connected engine with a connection-state listener that throws when the state leaves CONNECTED,
  \<^verbatim>\<open>reconnect()\<close> stops the connector, cancels every timer, counts the attempt and is then left
  by the exception; no RECONNECT timer is pending.
\<close>

theorem reconnect_aborted_by_listener:
  "connectionState (run connectedWithListener engine0) = CONNECTED \<and>
   connector (run connectedWithListener engine0) = Some ''wss://x'' \<and>
   raised (step Reconnect 30 (run connectedWithListener engine0)) = Some ''listener failed'' \<and>
   reconnectAttempts (state_of (step Reconnect 30 (run connectedWithListener engine0))) = 1 \<and>
   connectionState (state_of (step Reconnect 30 (run connectedWithListener engine0))) = CONNECTING \<and>
   timeoutIds (state_of (step Reconnect 30 (run connectedWithListener engine0))) = []"
  by (simp add: example_defs engine_defs Let_def)

subsection \<open>Listeners of state changes\<close>

lemma authStateListenerCalls_append [simp]:
  "authStateListenerCalls (a @ b) = authStateListenerCalls a @ authStateListenerCalls b"
  by (induction a rule: authStateListenerCalls.induct) simp_all

lemma authStateListenerCalls_forEachTryCatch:
  "authStateListenerCalls
     (forEachTryCatch (\<lambda>i. AuthStateListenerCalled i n p) (\<lambda>e. LoggerError t (LoggedException e)) ls a) =
   map (\<lambda>l. (lid l, n, p)) ls"
  by (induction ls) (simp_all split: option.split)

text \<open>
  C10. \<^verbatim>\<open>setAuthState\<close> calls every auth-state listener with the new and the previous state on
  every call, also when the two are equal; \<^verbatim>\<open>setConnectionState\<close> and \<^verbatim>\<open>Channel.setStatus\<close>
  return at once, calling no listener, when the new value equals the current one.
\<close>

theorem auth_state_listeners_always_called:
  "authStateListenerCalls (trace (setAuthState newState s)) =
     authStateListenerCalls (trace s) @
       map (\<lambda>l. (lid l, newState, authState s)) (authStateChangeListeners s) \<and>
   authStateListenerCalls (trace (setAuthState (authState s) s)) =
     authStateListenerCalls (trace s) @
       map (\<lambda>l. (lid l, authState s, authState s)) (authStateChangeListeners s) \<and>
   setConnectionState (connectionState s) s = Done s \<and>
   setStatus (status ch) ch = (ch, [])"
  by (simp add: setAuthState_def Let_def authStateListenerCalls_forEachTryCatch
        setConnectionState_def setStatus_def)

subsection \<open>Restoring the channels\<close>

lemma sentMessages_append [simp]: "sentMessages (a @ b) = sentMessages a @ sentMessages b"
  by (induction a rule: sentMessages.induct) simp_all

lemma sentMessages_forEachTryCatch_status [simp]:
  "sentMessages (forEachTryCatch (\<lambda>i. ChannelStatusListenerCalled c i n p) (\<lambda>e. ConsoleError t c (LoggedException e)) ls a) = []"
  by (induction ls) (simp_all split: option.split)

lemma setStatus_facts [simp]:
  "cid (fst (setStatus n ch)) = cid ch"
  "status (fst (setStatus n ch)) = n"
  "service (fst (setStatus n ch)) = service ch"
  "parameters (fst (setStatus n ch)) = parameters ch"
  "sentMessages (snd (setStatus n ch)) = []"
  by (auto simp add: setStatus_def Let_def)

lemma requestChannel_heap:
  "heap (requestChannel i now s) =
     (case heap s i of None \<Rightarrow> heap s | Some ch \<Rightarrow> (heap s)(i \<mapsto> fst (setStatus REQUESTED ch)))"
  by (simp add: requestChannel_def processStatusRequested_def Let_def split: option.split prod.split)

lemma sendMessage_trace:
  "trace (sendMessage m now s) = trace s @ (case connector s of None \<Rightarrow> [] | Some u \<Rightarrow> [ConnectorSendMessage m])"
  by (simp add: sendMessage_def scheduleKeepalive_def Let_def split: option.split)

lemma requestChannel_sent:
  "heap s i = Some ch \<Longrightarrow> cid ch = i \<Longrightarrow>
   sentMessages (trace (requestChannel i now s)) =
     sentMessages (trace s) @ (case connector s of None \<Rightarrow> [] | Some u \<Rightarrow> [channelRequestOf s i])"
  by (simp add: requestChannel_def processStatusRequested_def Let_def sendMessage_trace channelRequestOf_def
       split: option.split prod.split)
     (metis setStatus_facts(5) snd_conv)

lemma loop_facts:
  "distinct js \<Longrightarrow> \<forall>i\<in>set js. \<exists>ch. heap s i = Some ch \<and> cid ch = i \<Longrightarrow>
   channels (requestActiveChannelsLoop js now s) =
     filter (\<lambda>j. \<not> (j \<in> set js \<and> statusOf s j = Some CLOSED)) (channels s) \<and>
   (\<forall>j. heap (requestActiveChannelsLoop js now s) j =
      (if j \<in> set js \<and> statusOf s j \<noteq> Some CLOSED
       then map_option (\<lambda>ch. fst (setStatus REQUESTED ch)) (heap s j) else heap s j)) \<and>
   sentMessages (trace (requestActiveChannelsLoop js now s)) =
     sentMessages (trace s) @
       (case connector s of None \<Rightarrow> []
        | Some u \<Rightarrow> map (channelRequestOf s) (filter (\<lambda>j. statusOf s j \<noteq> Some CLOSED) js))"
proof (induction js arbitrary: s)
  case Nil
  show ?case by (simp split: option.split)
next
  case (Cons i js)
  from Cons.prems obtain ch where ch: "heap s i = Some ch" "cid ch = i" by auto
  from Cons.prems have d: "distinct js" "i \<notin> set js" by auto
  show ?case
  proof (cases "status ch = CLOSED")
    case True
    let ?s1 = "s\<lparr>channels := removeAll i (channels s)\<rparr>"
    have step: "requestActiveChannelsLoop (i # js) now s = requestActiveChannelsLoop js now ?s1"
      using ch True by simp
    have pre: "\<forall>k\<in>set js. \<exists>c. heap ?s1 k = Some c \<and> cid c = k" using Cons.prems by simp
    have so: "statusOf ?s1 = statusOf s" by (simp add: statusOf_def fun_eq_iff)
    have cr: "channelRequestOf ?s1 = channelRequestOf s" by (simp add: channelRequestOf_def fun_eq_iff)
    have si: "statusOf s i = Some CLOSED" using ch True by (simp add: statusOf_def)
    from Cons.IH [OF d(1) pre] show ?thesis
      unfolding step so cr using si d
      by (auto simp add: removeAll_filter_not_eq intro!: filter_cong split: option.split)
  next
    case False
    let ?s1 = "requestChannel i now s"
    have step: "requestActiveChannelsLoop (i # js) now s = requestActiveChannelsLoop js now ?s1"
      using ch False by simp
    have h1: "heap ?s1 = (heap s)(i \<mapsto> fst (setStatus REQUESTED ch))"
      using ch by (simp add: requestChannel_heap)
    have pre: "\<forall>k\<in>set js. \<exists>c. heap ?s1 k = Some c \<and> cid c = k" using Cons.prems d by (simp add: h1)
    have so: "\<And>k. k \<noteq> i \<Longrightarrow> statusOf ?s1 k = statusOf s k" by (simp add: statusOf_def h1)
    have cr: "\<And>k. k \<noteq> i \<Longrightarrow> channelRequestOf ?s1 k = channelRequestOf s k"
      by (simp add: channelRequestOf_def h1)
    have si: "statusOf s i \<noteq> Some CLOSED" using ch False by (simp add: statusOf_def)
    have sent: "sentMessages (trace ?s1) =
        sentMessages (trace s) @ (case connector s of None \<Rightarrow> [] | Some u \<Rightarrow> [channelRequestOf s i])"
      using ch by (rule requestChannel_sent)
    have ne: "k \<noteq> i" if "k \<in> set js" for k using that d by auto
    have so': "statusOf ?s1 k = statusOf s k" if "k \<in> set js" for k
      using ne [OF that] by (rule so)
    have cr': "channelRequestOf ?s1 k = channelRequestOf s k" if "k \<in> set js" for k
      using ne [OF that] by (rule cr)
    have fl: "filter (\<lambda>j. statusOf ?s1 j \<noteq> Some CLOSED) js = filter (\<lambda>j. statusOf s j \<noteq> Some CLOSED) js"
      by (rule filter_cong) (simp_all add: so')
    have mp: "map (channelRequestOf ?s1) (filter (\<lambda>j. statusOf s j \<noteq> Some CLOSED) js) =
              map (channelRequestOf s) (filter (\<lambda>j. statusOf s j \<noteq> Some CLOSED) js)"
      by (rule map_cong) (simp_all add: cr')
    have fc: "filter (\<lambda>j. \<not> (j \<in> set js \<and> statusOf ?s1 j = Some CLOSED)) (channels s) =
              filter (\<lambda>j. \<not> ((j = i \<or> j \<in> set js) \<and> statusOf s j = Some CLOSED)) (channels s)"
      by (rule filter_cong) (use si so' in auto)
    have ch1: "channels ?s1 = channels s" and cn1: "connector ?s1 = connector s" by simp_all
    note IH = Cons.IH [OF d(1) pre]
    have A: "channels (requestActiveChannelsLoop js now ?s1) =
        filter (\<lambda>j. \<not> ((j = i \<or> j \<in> set js) \<and> statusOf s j = Some CLOSED)) (channels s)"
      using IH by (simp only: ch1 fc)
    have B: "heap (requestActiveChannelsLoop js now ?s1) j =
        (if (j = i \<or> j \<in> set js) \<and> statusOf s j \<noteq> Some CLOSED
         then map_option (\<lambda>ch. fst (setStatus REQUESTED ch)) (heap s j) else heap s j)" for j
    proof (cases "j \<in> set js")
      case True
      then have "j \<noteq> i" by (rule ne)
      with True IH show ?thesis by (simp add: so' h1)
    next
      case False
      with IH have "heap (requestActiveChannelsLoop js now ?s1) j = heap ?s1 j" by simp
      with False si ch show ?thesis by (simp add: h1)
    qed
    have C: "sentMessages (trace (requestActiveChannelsLoop js now ?s1)) =
        sentMessages (trace s) @
          (case connector s of None \<Rightarrow> []
           | Some u \<Rightarrow> map (channelRequestOf s) (filter (\<lambda>j. statusOf s j \<noteq> Some CLOSED) (i # js)))"
      using IH si by (simp add: cn1 sent fl mp split: option.split)
    show ?thesis unfolding step using A B C by simp
  qed
qed

lemma tableOk_frame: "heap s' = heap s \<Longrightarrow> channels s' = channels s \<Longrightarrow> tableOk s' = tableOk s"
  by (simp add: tableOk_def)

lemma disconnect_table [simp]:
  "heap (state_of (disconnect s)) = heap s" "channels (state_of (disconnect s)) = channels s"
  by (simp_all add: disconnect_def Let_def state_of_andThen cancelAllSchedules_eq split: option.split)

lemma reconnect_table [simp]:
  "heap (state_of (reconnect s)) = heap s" "channels (state_of (reconnect s)) = channels s"
  by (simp_all add: reconnect_def Let_def state_of_andThen cancelAllSchedules_eq)

lemma connect_table [simp]:
  "heap (state_of (connect url s)) = heap s" "channels (state_of (connect url s)) = channels s"
  by (simp_all add: connect_def Let_def state_of_andThen addConnectionStateChangeListener_def)

lemma processSetupMessage_table [simp]:
  "heap (state_of (processSetupMessage v k s)) = heap s"
  "channels (state_of (processSetupMessage v k s)) = channels s"
  by (simp_all add: processSetupMessage_def Let_def state_of_andThen)

lemma sendAuthMessage_table [simp]:
  "heap (sendAuthMessage t now s) = heap s" "channels (sendAuthMessage t now s) = channels s"
  by (simp_all add: sendAuthMessage_def Let_def)

lemma processTransportOpen_table [simp]:
  "heap (processTransportOpen now s) = heap s" "channels (processTransportOpen now s) = channels s"
  by (simp_all add: processTransportOpen_def Let_def split: option.split)

lemma processTransportClose_table [simp]:
  "heap (state_of (processTransportClose s)) = heap s"
  "channels (state_of (processTransportClose s)) = channels s"
  by (simp_all add: processTransportClose_def)

lemma setAuthToken_table [simp]:
  "heap (setAuthToken t now s) = heap s" "channels (setAuthToken t now s) = channels s"
  by (simp_all add: setAuthToken_def Let_def)

lemma runCallback_table [simp]:
  "heap (state_of (runCallback cb now s)) = heap s"
  "channels (state_of (runCallback cb now s)) = channels s"
  by (cases cb; simp add: actionTimeoutExpired_def timeoutCheck_def Let_def scheduleKeepalive_def
        split: option.split)+

lemma fireTimer_table [simp]:
  "heap (state_of (fireTimer key now s)) = heap s"
  "channels (state_of (fireTimer key now s)) = channels s"
  by (simp_all add: fireTimer_def split: option.split)

lemma tableOk_update:
  "tableOk s \<Longrightarrow> heap s i = Some ch \<Longrightarrow> cid ch1 = cid ch \<Longrightarrow> heap s' = (heap s)(i \<mapsto> ch1) \<Longrightarrow>
   channels s' = channels s \<Longrightarrow> tableOk s'"
  by (auto simp add: tableOk_def)

lemma tableOk_requestChannel: "tableOk s \<Longrightarrow> tableOk (requestChannel i now s)"
proof (cases "heap s i")
  case None
  then show "tableOk s \<Longrightarrow> tableOk (requestChannel i now s)" by (simp add: requestChannel_def)
next
  case (Some ch)
  assume "tableOk s"
  then show "tableOk (requestChannel i now s)"
    by (rule tableOk_update [OF _ Some, where ?ch1.0 = "fst (setStatus REQUESTED ch)"])
       (simp_all add: requestChannel_heap Some)
qed

lemma tableOk_openChannel: "tableOk s \<Longrightarrow> tableOk (openChannel sv ps now s)"
proof -
  assume ok: "tableOk s"
  let ?i = "globalChannelId s"
  let ?s2 = "s\<lparr>globalChannelId := ?i + 2, heap := (heap s)(?i \<mapsto> newChannel ?i sv ps),
                channels := (if ?i \<in> set (channels s) then channels s else channels s @ [?i])\<rparr>"
  have "tableOk ?s2" using ok by (auto simp add: tableOk_def newChannel_def)
  then show ?thesis
    by (auto simp add: openChannel_def Let_def tableOk_requestChannel)
qed

lemma tableOk_loop:
  "tableOk s \<Longrightarrow> tableOk (requestActiveChannelsLoop js now s)"
proof (induction js now s rule: requestActiveChannelsLoop.induct)
  case (1 now s)
  then show ?case by simp
next
  case (2 i rest now s)
  show ?case
  proof (cases "heap s i")
    case None
    with 2 show ?thesis by simp
  next
    case (Some ch)
    show ?thesis
    proof (cases "status ch = CLOSED")
      case True
      have "tableOk (s\<lparr>channels := removeAll (cid ch) (channels s)\<rparr>)"
        using "2.prems" by (auto simp add: tableOk_def distinct_removeAll)
      with 2 Some True show ?thesis by simp
    next
      case False
      with 2 Some show ?thesis by (simp add: tableOk_requestChannel)
    qed
  qed
qed

lemma clear_cid [simp]: "cid (clear ch) = cid ch"
  by (simp add: clear_def)

lemma channel_method_cid [simp]:
  "cid (fst (state_of (send msg ch))) = cid ch"
  "cid (fst (state_of (channelError err ch))) = cid ch"
  "cid (fst (state_of (close ch))) = cid ch"
  "cid (fst (state_of (processPayloadMessage m ch))) = cid ch"
  "cid (fst (processStatusOpened ch)) = cid ch"
  "cid (fst (processStatusClosed ch)) = cid ch"
  "cid (fst (processError err ch)) = cid ch"
  "cid (fst (state_of (quiet (addMessageListener ml) ch))) = cid ch"
  "cid (fst (state_of (quiet (removeMessageListener ml) ch))) = cid ch"
  "cid (fst (state_of (quiet (addStatusListener sl) ch))) = cid ch"
  "cid (fst (state_of (quiet (removeStatusListener sl) ch))) = cid ch"
  "cid (fst (state_of (quiet (channelAddErrorListener el) ch))) = cid ch"
  "cid (fst (state_of (quiet (channelRemoveErrorListener el) ch))) = cid ch"
  by (simp_all add: send_def channelError_def close_def processPayloadMessage_def
        processStatusOpened_def processStatusClosed_def processError_def quiet_def
        addMessageListener_def removeMessageListener_def addStatusListener_def
        removeStatusListener_def channelAddErrorListener_def channelRemoveErrorListener_def
        Let_def case_prod_beta split: completion.split)

lemma tableOk_simps [simp]:
  "tableOk (emit fx s) = tableOk s"
  "tableOk (cancelSchedule k s) = tableOk s"
  "tableOk (schedule k c t s) = tableOk s"
  "tableOk (sendMessage msg now s) = tableOk s"
  "tableOk (setAuthState a s) = tableOk s"
  "tableOk (publishError e s) = tableOk s"
  "tableOk (state_of (setConnectionState n s)) = tableOk s"
  "tableOk (state_of (disconnect s)) = tableOk s"
  "tableOk (state_of (reconnect s)) = tableOk s"
  "tableOk (state_of (connect url s)) = tableOk s"
  "tableOk (state_of (processSetupMessage v ka s)) = tableOk s"
  "tableOk (processTransportOpen now s) = tableOk s"
  "tableOk (state_of (processTransportClose s)) = tableOk s"
  "tableOk (setAuthToken tok now s) = tableOk s"
  "tableOk (state_of (fireTimer key now s)) = tableOk s"
  "tableOk (perform efs now s) = tableOk s"
  "tableOk (s\<lparr>isFirstAuthState := b\<rparr>) = tableOk s"
  "tableOk (s\<lparr>lastSettedAuthToken := tk\<rparr>) = tableOk s"
  "tableOk (s\<lparr>lastReceivedMillis := now\<rparr>) = tableOk s"
  by (simp_all add: tableOk_def)

lemma tableOk_listeners [simp]:
  "tableOk (addConnectionStateChangeListener cl s) = tableOk s"
  "tableOk (removeConnectionStateChangeListener cl s) = tableOk s"
  "tableOk (addAuthStateChangeListener al s) = tableOk s"
  "tableOk (removeAuthStateChangeListener al s) = tableOk s"
  "tableOk (addErrorListener el s) = tableOk s"
  "tableOk (removeErrorListener el s) = tableOk s"
  by (simp_all add: tableOk_def addConnectionStateChangeListener_def
        removeConnectionStateChangeListener_def addAuthStateChangeListener_def
        removeAuthStateChangeListener_def addErrorListener_def removeErrorListener_def)

lemma tableOk_onChannel:
  "(\<And>ch. cid (fst (state_of (method ch))) = cid ch) \<Longrightarrow> tableOk s \<Longrightarrow>
   tableOk (state_of (onChannel i method now s))"
proof (cases "heap s i")
  case None
  then show "tableOk s \<Longrightarrow> tableOk (state_of (onChannel i method now s))"
    by (simp add: onChannel_def)
next
  case (Some ch)
  assume m: "\<And>ch. cid (fst (state_of (method ch))) = cid ch" and ok: "tableOk s"
  let ?ch1 = "fst (state_of (method ch))"
  have "tableOk (s\<lparr>heap := (heap s)(i \<mapsto> ?ch1)\<rparr>)"
    using ok Some m [of ch] by (auto simp add: tableOk_def)
  then show "tableOk (state_of (onChannel i method now s))"
    using Some by (cases "method ch") (auto simp add: onChannel_def)
qed

lemma tableOk_updateChannel:
  "tableOk s \<Longrightarrow> heap s i = Some ch \<Longrightarrow> cid (fst r) = cid ch \<Longrightarrow> tableOk (updateChannel i r s)"
  by (auto simp add: tableOk_def updateChannel_def)

lemma tableOk_requestActiveChannels: "tableOk s \<Longrightarrow> tableOk (requestActiveChannels now s)"
  by (simp add: requestActiveChannels_def tableOk_loop)

lemma tableOk_processAuthStateMessage:
  "tableOk s \<Longrightarrow> tableOk (state_of (processAuthStateMessage st now s))"
  by (simp add: processAuthStateMessage_def Let_def state_of_andThen tableOk_requestActiveChannels)

lemma tableOk_channelMessage:
  assumes ok: "tableOk s" and ch: "heap s (channel m) = Some ch"
  shows "tableOk (state_of
           (if isChannelLifecycleMessage m then
              (case m of
                 ChannelOpenedMessage c sv ps \<Rightarrow>
                   Done (updateChannel (channel m) (processStatusOpened ch) s)
               | ChannelClosedMessage c \<Rightarrow>
                   Done (updateChannel (channel m) (processStatusClosed ch) s)
               | ErrorMessage c e msg \<Rightarrow>
                   Done (updateChannel (channel m)
                           (processError \<lparr>error_type = e, error_message = msg\<rparr> ch) s)
               | _ \<Rightarrow> Done s)
            else
              (case processPayloadMessage m ch of
                 Done r \<Rightarrow> Done (updateChannel (channel m) r s)
               | Raised e r \<Rightarrow> Raised e (updateChannel (channel m) r s))))"
proof (cases "isChannelLifecycleMessage m")
  case True
  then show ?thesis
    using ok ch by (cases m) (auto intro!: tableOk_updateChannel)
next
  case False
  have "cid (fst (state_of (processPayloadMessage m ch))) = cid ch" by simp
  then have "tableOk (updateChannel (channel m) (state_of (processPayloadMessage m ch)) s)"
    by (rule tableOk_updateChannel [OF ok ch])
  then show ?thesis using False by (cases "processPayloadMessage m ch") simp_all
qed

lemma tableOk_processMessage:
  assumes ok: "tableOk s"
  shows "tableOk (state_of (processMessage m now s))"
proof -
  let ?s1 = "s\<lparr>lastReceivedMillis := now\<rparr>"
  let ?s2 = "if keepaliveInterval (config ?s1) * 1000 \<le> lastReceivedMillis ?s1 - lastSentMillis ?s1
             then sendMessage [(''type'', JSString ''KEEPALIVE''), (''channel'', JSNumber 0)] now ?s1
             else ?s1"
  have ok2: "tableOk ?s2" using ok by simp
  show ?thesis
  proof (cases "isConnectionMessage m")
    case True
    then show ?thesis
      unfolding processMessage_def Let_def
      using ok2 by (cases m) (simp_all add: tableOk_processAuthStateMessage)
  next
    case False
    then have cm: "isChannelMessage m" by (simp add: isConnectionMessage_def isChannelMessage_def)
    show ?thesis
    proof (cases "if channel m \<in> set (channels ?s2) then heap ?s2 (channel m) else None")
      case None
      then show ?thesis
        unfolding processMessage_def Let_def
        using ok2 False cm by simp
    next
      case (Some ch)
      then have h: "heap ?s2 (channel m) = Some ch" by (simp split: if_splits)
      from tableOk_channelMessage [OF ok2 h] show ?thesis
        unfolding processMessage_def Let_def
        using False cm Some by simp
    qed
  qed
qed

lemma tableOk_step: "tableOk s \<Longrightarrow> tableOk (state_of (step ev now s))"
  by (cases ev) (simp_all add: tableOk_openChannel tableOk_onChannel tableOk_processMessage)

lemma tableOk_run: "tableOk s \<Longrightarrow> tableOk (run evs s)"
  by (induction evs s rule: run.induct) (simp_all add: tableOk_step)

lemma tableOk_new: "tableOk (newDXLinkWebSocket cfg)"
  by (simp add: tableOk_def newDXLinkWebSocket_def)

lemma sentMessages_callConnectionStateListeners [simp]:
  "sentMessages (trace (state_of (callConnectionStateListeners ls n p s))) = sentMessages (trace s)"
  by (induction ls n p s rule: callConnectionStateListeners.induct)
     (simp_all add: Let_def emit_def removeConnectionStateChangeListener_def split: option.split)

lemma sentMessages_setConnectionState [simp]:
  "sentMessages (trace (state_of (setConnectionState n s))) = sentMessages (trace s)"
  by (simp add: setConnectionState_def Let_def)

lemma sentMessages_forEachTryCatch_auth [simp]:
  "sentMessages (forEachTryCatch (\<lambda>i. AuthStateListenerCalled i n p) (\<lambda>e. LoggerError t (LoggedException e)) ls a) = []"
  by (induction ls) (simp_all split: option.split)

lemma sentMessages_setAuthState [simp]:
  "sentMessages (trace (setAuthState n s)) = sentMessages (trace s)"
  by (simp add: setAuthState_def Let_def emit_def)

text \<open>
  What \<^verbatim>\<open>requestActiveChannels\<close> does to a table whose keys are distinct and name the channels
  stored under them (every reachable table is such, \<open>tableOk_run\<close>): it leaves in the table
  exactly the channels whose status is not CLOSED, in their order; each of them has status
  REQUESTED afterwards; and the connector, when there is one, is sent one CHANNEL_REQUEST per
  remaining channel, with the channel's id, service and parameters.
\<close>

lemma requestActiveChannels_table:
  assumes ok: "tableOk s"
  shows "channels (requestActiveChannels now s) =
           filter (\<lambda>i. statusOf s i \<noteq> Some CLOSED) (channels s) \<and>
         map (statusOf (requestActiveChannels now s)) (channels (requestActiveChannels now s)) =
           map (\<lambda>i. Some REQUESTED) (channels (requestActiveChannels now s)) \<and>
         sentMessages (trace (requestActiveChannels now s)) =
           sentMessages (trace s) @
             (case connector s of
                None \<Rightarrow> []
              | Some url \<Rightarrow> map (channelRequestOf s) (channels (requestActiveChannels now s)))"
proof -
  from ok have d: "distinct (channels s)"
    and h: "\<forall>i\<in>set (channels s). \<exists>ch. heap s i = Some ch \<and> cid ch = i"
    by (simp_all add: tableOk_def)
  note L = loop_facts [OF d h, of now, folded requestActiveChannels_def]
  have A: "channels (requestActiveChannels now s) =
      filter (\<lambda>i. statusOf s i \<noteq> Some CLOSED) (channels s)"
    using L by (auto intro: filter_cong)
  have B: "statusOf (requestActiveChannels now s) i = Some REQUESTED"
    if "i \<in> set (channels (requestActiveChannels now s))" for i
  proof -
    from that A have i: "i \<in> set (channels s)" "statusOf s i \<noteq> Some CLOSED" by auto
    with h obtain ch where "heap s i = Some ch" by auto
    with i L show ?thesis by (simp add: statusOf_def)
  qed
  have C: "sentMessages (trace (requestActiveChannels now s)) =
     sentMessages (trace s) @
       (case connector s of None \<Rightarrow> []
        | Some url \<Rightarrow> map (channelRequestOf s) (channels (requestActiveChannels now s)))"
    unfolding A by (rule L [THEN conjunct2, THEN conjunct2])
  from A B C show ?thesis by simp
qed

text \<open>
  An AUTH_STATE AUTHORIZED that is processed to its end has run \<^verbatim>\<open>requestActiveChannels\<close> on
  the table as it was, and has restored the channels.
\<close>

lemma processAuthStateMessage_authorized:
  "raised (processAuthStateMessage AUTHORIZED now s) = None \<Longrightarrow>
   \<exists>s3. state_of (processAuthStateMessage AUTHORIZED now s) =
           setAuthState AUTHORIZED (requestActiveChannels now s3) \<and>
         channels s3 = channels s \<and> heap s3 = heap s \<and> connector s3 = connector s \<and>
         sentMessages (trace s3) = sentMessages (trace s)"
  by (auto simp add: processAuthStateMessage_def Let_def state_of_andThen raised_andThen
        split: if_splits)

lemma processAuthStateMessage_restores:
  assumes ok: "tableOk s"
    and ret: "raised (processAuthStateMessage AUTHORIZED now s) = None"
  shows "channels (state_of (processAuthStateMessage AUTHORIZED now s)) =
           filter (\<lambda>i. statusOf s i \<noteq> Some CLOSED) (channels s) \<and>
         map (statusOf (state_of (processAuthStateMessage AUTHORIZED now s)))
             (channels (state_of (processAuthStateMessage AUTHORIZED now s))) =
           map (\<lambda>i. Some REQUESTED) (channels (state_of (processAuthStateMessage AUTHORIZED now s))) \<and>
         sentMessages (trace (state_of (processAuthStateMessage AUTHORIZED now s))) =
           sentMessages (trace s) @
             (case connector s of
                None \<Rightarrow> []
              | Some url \<Rightarrow>
                  map (channelRequestOf s)
                    (channels (state_of (processAuthStateMessage AUTHORIZED now s))))"
proof -
  from processAuthStateMessage_authorized [OF ret] obtain s3 where
    st: "state_of (processAuthStateMessage AUTHORIZED now s) =
           setAuthState AUTHORIZED (requestActiveChannels now s3)"
    and eq: "channels s3 = channels s" "heap s3 = heap s" "connector s3 = connector s"
      "sentMessages (trace s3) = sentMessages (trace s)"
    by blast
  have ok3: "tableOk s3" using ok eq by (simp add: tableOk_def)
  have so: "statusOf s3 = statusOf s" using eq by (simp add: statusOf_def fun_eq_iff)
  have cr: "channelRequestOf s3 = channelRequestOf s"
    using eq by (simp add: channelRequestOf_def fun_eq_iff)
  have sa: "statusOf (setAuthState AUTHORIZED x) = statusOf x" for x
    by (simp add: statusOf_def fun_eq_iff)
  from requestActiveChannels_table [OF ok3, of now] show ?thesis
    unfolding st by (simp add: so cr eq sa split: option.split)
qed

text \<open>
  The same for the message as the transport delivers it, in every state the engine reaches
  from a new engine: when processing AUTH_STATE AUTHORIZED returns, the table and the channels
  are as above, and the messages sent are a KEEPALIVE, if one is due, and the CHANNEL_REQUESTs.
\<close>

lemma authorized_restores_channels:
  assumes ret: "raised (step (TransportMessage (AuthStateMessage 0 AUTHORIZED)) now
                          (run evs (newDXLinkWebSocket cfg))) = None"
  shows "channels (state_of (step (TransportMessage (AuthStateMessage 0 AUTHORIZED)) now
                               (run evs (newDXLinkWebSocket cfg)))) =
           filter (\<lambda>i. statusOf (run evs (newDXLinkWebSocket cfg)) i \<noteq> Some CLOSED)
             (channels (run evs (newDXLinkWebSocket cfg))) \<and>
         map (statusOf (state_of (step (TransportMessage (AuthStateMessage 0 AUTHORIZED)) now
                                    (run evs (newDXLinkWebSocket cfg)))))
             (channels (state_of (step (TransportMessage (AuthStateMessage 0 AUTHORIZED)) now
                                    (run evs (newDXLinkWebSocket cfg))))) =
           map (\<lambda>i. Some REQUESTED)
             (channels (state_of (step (TransportMessage (AuthStateMessage 0 AUTHORIZED)) now
                                    (run evs (newDXLinkWebSocket cfg))))) \<and>
         (\<forall>url. connector (run evs (newDXLinkWebSocket cfg)) = Some url \<longrightarrow>
            sentMessages (trace (state_of (step (TransportMessage (AuthStateMessage 0 AUTHORIZED)) now
                                             (run evs (newDXLinkWebSocket cfg))))) =
              sentMessages (trace (run evs (newDXLinkWebSocket cfg))) @
              (if keepaliveInterval (config (run evs (newDXLinkWebSocket cfg))) * 1000
                    \<le> now - lastSentMillis (run evs (newDXLinkWebSocket cfg))
               then [[(''type'', JSString ''KEEPALIVE''), (''channel'', JSNumber 0)]] else []) @
              map (channelRequestOf (run evs (newDXLinkWebSocket cfg)))
                (channels (state_of (step (TransportMessage (AuthStateMessage 0 AUTHORIZED)) now
                                       (run evs (newDXLinkWebSocket cfg))))))"
proof -
  let ?s = "run evs (newDXLinkWebSocket cfg)"
  let ?s1 = "?s\<lparr>lastReceivedMillis := now\<rparr>"
  let ?ka = "[(''type'', JSString ''KEEPALIVE''), (''channel'', JSNumber 0)]"
  let ?s2 = "if keepaliveInterval (config ?s) * 1000 \<le> now - lastSentMillis ?s
             then sendMessage ?ka now ?s1 else ?s1"
  have pm: "step (TransportMessage (AuthStateMessage 0 AUTHORIZED)) now ?s =
            processAuthStateMessage AUTHORIZED now ?s2"
    by (simp add: processMessage_def isConnectionMessage_def Let_def)
  have ok: "tableOk ?s" by (rule tableOk_run [OF tableOk_new])
  have eq: "channels ?s2 = channels ?s" "heap ?s2 = heap ?s" "connector ?s2 = connector ?s"
    by simp_all
  have ok2: "tableOk ?s2" using ok unfolding tableOk_def eq .
  have so: "statusOf ?s2 = statusOf ?s" unfolding statusOf_def eq ..
  have cr: "channelRequestOf ?s2 = channelRequestOf ?s" unfolding channelRequestOf_def eq ..
  have tr: "sentMessages (trace ?s2) =
      sentMessages (trace ?s) @
        (if keepaliveInterval (config ?s) * 1000 \<le> now - lastSentMillis ?s
         then (case connector ?s of None \<Rightarrow> [] | Some u \<Rightarrow> [?ka]) else [])"
    by (simp add: sendMessage_trace split: option.split)
  from ret have ret2: "raised (processAuthStateMessage AUTHORIZED now ?s2) = None"
    unfolding pm .
  note R = processAuthStateMessage_restores [OF ok2 ret2, unfolded so cr eq tr, folded pm]
  show ?thesis
    using R by (auto split: if_splits)
qed

text \<open>
  Scenario 6: channels 1 and 3 are OPENED and channel 5 is CLOSED when an AUTH_STATE AUTHORIZED
  is processed, here on a connected engine with no listener.
\<close>

lemma processAuthStateMessage_restores_example:
  "map (statusOf (run twoOpenedOneClosed (newDXLinkWebSocket defaultConfig))) [1, 3, 5] =
     [Some OPENED, Some OPENED, Some CLOSED] \<and>
   channels (run twoOpenedOneClosed (newDXLinkWebSocket defaultConfig)) = [1, 3, 5] \<and>
   raised (processAuthStateMessage AUTHORIZED 60
             (run twoOpenedOneClosed (newDXLinkWebSocket defaultConfig))) = None \<and>
   channels (state_of (processAuthStateMessage AUTHORIZED 60
                         (run twoOpenedOneClosed (newDXLinkWebSocket defaultConfig)))) = [1, 3] \<and>
   map (statusOf (state_of (processAuthStateMessage AUTHORIZED 60
                              (run twoOpenedOneClosed (newDXLinkWebSocket defaultConfig)))))
     [1, 3] = [Some REQUESTED, Some REQUESTED] \<and>
   sentMessages (trace (state_of (processAuthStateMessage AUTHORIZED 60
       (run twoOpenedOneClosed (newDXLinkWebSocket defaultConfig))))) =
     sentMessages (trace (run twoOpenedOneClosed (newDXLinkWebSocket defaultConfig))) @
       [[(''type'', JSString ''CHANNEL_REQUEST''), (''channel'', JSNumber 1),
         (''service'', JSString ''FEED''),
         (''parameters'', JSObject [(''contract'', JSString ''AUTO'')])],
        [(''type'', JSString ''CHANNEL_REQUEST''), (''channel'', JSNumber 3),
         (''service'', JSString ''DOM''), (''parameters'', JSObject [])]]"
proof -
  let ?s = "run twoOpenedOneClosed (newDXLinkWebSocket defaultConfig)"
  have h: "channels ?s = [1, 3, 5]" "connector ?s = Some ''wss://x''"
    "heap ?s 1 = Some ((newChannel 1 ''FEED'' [(''contract'', JSString ''AUTO'')])\<lparr>status := OPENED\<rparr>)"
    "heap ?s 3 = Some ((newChannel 3 ''DOM'' [])\<lparr>status := OPENED\<rparr>)"
    "heap ?s 5 = Some ((newChannel 5 ''CANDLES'' [])\<lparr>status := CLOSED\<rparr>)"
    "connectionState ?s = CONNECTED"
    by (simp_all add: example_defs engine_defs channel_defs Let_def AList.delete_eq)
  have ok: "tableOk ?s" by (rule tableOk_run [OF tableOk_new])
  have ret: "raised (processAuthStateMessage AUTHORIZED 60 ?s) = None"
    using h(6) by (simp add: processAuthStateMessage_def setConnectionState_def Let_def raised_andThen)
  show ?thesis
    using h ret processAuthStateMessage_restores [OF ok ret]
    by (simp add: statusOf_def channelRequestOf_def newChannel_def)
qed

text \<open>
  C7. Every AUTH_STATE AUTHORIZED must run \<^verbatim>\<open>requestActiveChannels\<close>. \<^verbatim>\<open>processAuthStateMessage\<close>
  calls \<^verbatim>\<open>setConnectionState(CONNECTED)\<close> first, whose listener loop has no try/catch. After a
  reconnect, with channels 1 and 3 OPENED and channel 5 CLOSED in the table and a
  connection-state listener that throws on CONNECTED, the AUTH_STATE AUTHORIZED of the new
  connection is left by the exception before \<^verbatim>\<open>requestActiveChannels\<close> is reached: channel 5
  stays in the table, channels 1 and 3 keep the status OPENED, and no CHANNEL_REQUEST (no
  message at all) is sent.
\<close>

theorem reauthorization_aborted_by_listener:
  "channelTable (run reconnectedWithListener engine0) =
     [(1, Some OPENED), (3, Some OPENED), (5, Some CLOSED)] \<and>
   connector (run reconnectedWithListener engine0) = Some ''wss://x'' \<and>
   connectionState (run reconnectedWithListener engine0) = CONNECTING \<and>
   raised (step (TransportMessage (AuthStateMessage 0 AUTHORIZED)) 1100
             (run reconnectedWithListener engine0)) = Some ''listener failed'' \<and>
   channelTable (state_of (step (TransportMessage (AuthStateMessage 0 AUTHORIZED)) 1100
                             (run reconnectedWithListener engine0))) =
     [(1, Some OPENED), (3, Some OPENED), (5, Some CLOSED)] \<and>
   sentMessages (trace (state_of (step (TransportMessage (AuthStateMessage 0 AUTHORIZED)) 1100
                                    (run reconnectedWithListener engine0)))) =
     sentMessages (trace (run reconnectedWithListener engine0))"
  by (simp add: example_defs engine_defs channel_defs Let_def AList.delete_eq statusOf_def
        channelTable_def)

section \<open>Properties of the version-2 AuthManager\<close>

text \<open>
  C9 (as the code has it). The handler that \<^verbatim>\<open>auth(token)\<close> registers calls \<^verbatim>\<open>resolve\<close> first,
  whatever the state. Only when a previous state was known does it go on: with AUTHORIZED it
  calls \<^verbatim>\<open>resolve\<close> a second time, with any other state it calls \<^verbatim>\<open>reject\<close> with no value. When
  no previous state was known there is no second call. The first call settles a pending
  Promise, which is therefore fulfilled in every case.
\<close>

theorem auth_handler_calls:
  "promises (authHandler p state m) p =
     promises m p @
       (case currentState m of
          None \<Rightarrow> [Resolve]
        | Some known \<Rightarrow> if state = AUTHORIZED then [Resolve, Resolve] else [Resolve, Reject None]) \<and>
   (promises m p = [] \<longrightarrow> promiseStateOf (promises (authHandler p state m) p) = Fulfilled)"
  by (simp add: authHandler_def settlePromise_def deleteHandler_def Let_def split: option.split)

text \<open>With a previous state known: AUTHORIZED resolves twice, UNAUTHORIZED resolves and rejects.\<close>

theorem auth_handler_calls_witness:
  "promises (authHandler 0 AUTHORIZED (authRequestedAgain UNAUTHORIZED)) 0 = [Resolve, Resolve] \<and>
   promises (authRequestedAgain AUTHORIZED) 0 = [] \<and>
   promises (authHandler 0 UNAUTHORIZED (authRequestedAgain AUTHORIZED)) 0 =
     [Resolve, Reject None] \<and>
   promiseStateOf (promises (authHandler 0 UNAUTHORIZED (authRequestedAgain AUTHORIZED)) 0) =
     Fulfilled"
  using auth_handler_calls [of 0 AUTHORIZED "authRequestedAgain UNAUTHORIZED"]
        auth_handler_calls [of 0 UNAUTHORIZED "authRequestedAgain AUTHORIZED"]
  by (simp add: authRequestedAgain_def authRequested_def auth_def newAuthManager_def
        addHandler_def Let_def)

text \<open>
  C9 as stated fails: on the first auth state after \<^verbatim>\<open>auth('T')\<close>, when no previous state is
  known, UNAUTHORIZED leads to one call of \<^verbatim>\<open>resolve\<close> and to no \<^verbatim>\<open>reject\<close> at all.
\<close>

theorem auth_no_reject_counterexample:
  "snd (auth ''T'' newAuthManager) = 0 \<and>
   currentState authRequested = None \<and>
   promises (state_of (handleAuthState UNAUTHORIZED authRequested)) 0 = [Resolve]"
  by (simp add: authRequested_def auth_def newAuthManager_def addHandler_def handleAuthState_def
        authHandler_def settlePromise_def deleteHandler_def Let_def)

end
